theory Spec2Isabelle
  imports Complex_Main "HOL-Library.Word"
begin

section \<open>Errors\<close>

text \<open>
  Every Go \<^verbatim>\<open>error\<close> that \<^verbatim>\<open>Call\<close> or \<^verbatim>\<open>FlexBool.UnmarshalJSON\<close> can return, one
  constructor per place of the source that produces it. An error that the source only
  passes on from a library keeps its message as a string. A nil-pointer dereference is a
  Go panic, not a returned error; it is a value here so that it is a branch of the model.
\<close>

datatype error =
    MakeRequestError string    \<comment> \<open>err of adapters.MakeOpenRTBGeneric (line 93)\<close>
  | DecodeError                \<comment> \<open>err of json.Unmarshal (lines 45, 117, 242)\<close>
  | MissingSiteId              \<comment> \<open>fmt.Errorf("Missing site id") (line 184)\<close>
  | TransportError string      \<comment> \<open>err of ctxhttp.Do (line 212)\<close>
  | ReadError string           \<comment> \<open>err of ioutil.ReadAll (line 227)\<close>
  | HTTPStatusError int string \<comment> \<open>fmt.Errorf("HTTP status: %d, body: %s", ...) (line 231)\<close>
  | UnknownImpression string   \<comment> \<open>fmt.Errorf("Unknown impression id '%s'", ...) (line 256)\<close>
  | UnknownAdUnitCode string   \<comment> \<open>fmt.Errorf("Unknown ad unit code '%s'", ...) (line 261)\<close>
  | NilPointerPanic            \<comment> \<open>dereference of a nil pointer\<close>

section \<open>The flexible boolean\<close>

text \<open>
  \<^verbatim>\<open>json.Unmarshal(data, &v)\<close> for a \<^verbatim>\<open>bool\<close> and for an \<^verbatim>\<open>int8\<close> target, as
  encoding/json documents it. The document is one JSON value between optional white space
  (space, tab, carriage return, line feed). The literal \<^verbatim>\<open>null\<close> has no effect on a
  target that is no pointer, map, slice or interface, and is no error. A \<^verbatim>\<open>bool\<close> takes
  \<^verbatim>\<open>true\<close> and \<^verbatim>\<open>false\<close>; an \<^verbatim>\<open>int8\<close> takes a number literal without fraction and
  exponent whose value fits 8 signed bits. Every other text is an error, a syntax error or a
  type error; the two are not told apart here.
\<close>

definition isSpace :: "char \<Rightarrow> bool" where
  "isSpace c = (c = CHR 0x20 \<or> c = CHR 0x09 \<or> c = CHR 0x0D \<or> c = CHR 0x0A)"

definition json_trim :: "string \<Rightarrow> string" where
  "json_trim data = rev (dropWhile isSpace (rev (dropWhile isSpace data)))"

definition isDigit :: "char \<Rightarrow> bool" where
  "isDigit c = (c \<in> set ''0123456789'')"

definition decimal :: "string \<Rightarrow> nat" where
  "decimal ds = foldl (\<lambda>n c. 10 * n + (of_char c - 48)) 0 ds"

text \<open>
  The JSON grammar of an integer literal: an optional minus sign, then either the single
  digit 0 or a digit string that does not start with 0. Its value is what
  \<^verbatim>\<open>strconv.ParseInt\<close> reads.
\<close>

definition json_natural :: "string \<Rightarrow> nat option" where
  "json_natural ds =
     (case ds of
        [] \<Rightarrow> None
      | d # rest \<Rightarrow>
          if list_all isDigit ds \<and> (if d = CHR ''0'' then rest = [] else True)
          then Some (decimal ds) else None)"

definition json_integer :: "string \<Rightarrow> int option" where
  "json_integer lit =
     (case lit of
        [] \<Rightarrow> None
      | c # rest \<Rightarrow>
          if c = CHR ''-'' then map_option (\<lambda>n. - int n) (json_natural rest)
          else map_option int (json_natural lit))"

definition json_Unmarshal_bool :: "string \<Rightarrow> bool \<Rightarrow> error + bool" where
  "json_Unmarshal_bool data v =
     (let lit = json_trim data in
      if lit = ''true'' then Inr True
      else if lit = ''false'' then Inr False
      else if lit = ''null'' then Inr v
      else Inl DecodeError)"

definition json_Unmarshal_int8 :: "string \<Rightarrow> 8 word \<Rightarrow> error + 8 word" where
  "json_Unmarshal_int8 data v =
     (let lit = json_trim data in
      if lit = ''null'' then Inr v
      else case json_integer lit of
             None \<Rightarrow> Inl DecodeError
           | Some n \<Rightarrow>
               if - 128 \<le> n \<and> n \<le> 127 then Inr (word_of_int n) else Inl DecodeError)"

text \<open>
  \<^verbatim>\<open>FlexBool.UnmarshalJSON\<close>. The result is the value written to \<^verbatim>\<open>*flag\<close>, or the
  error, in which case \<^verbatim>\<open>*flag\<close> is not written.
\<close>

definition FlexBool_UnmarshalJSON :: "string \<Rightarrow> error + bool" where
  "FlexBool_UnmarshalJSON data =
     (case json_Unmarshal_bool data False of
        Inr bval \<Rightarrow> Inr bval
      | Inl _ \<Rightarrow>
          (case json_Unmarshal_int8 data 0 of
             Inr nval \<Rightarrow> (if nval \<noteq> 0 then Inr True else Inr False)
           | Inl err \<Rightarrow> Inl err))"

definition ToInt8 :: "bool \<Rightarrow> 8 word" where
  "ToInt8 flag = (if flag = True then 1 else 0)"

section \<open>The data model\<close>

text \<open>
  The structs of the openrtb and pbs packages, with the fields that the adapter reads or
  writes; a field name carries its struct's name where two structs share it. \<^verbatim>\<open>int8\<close>
  (also \<^verbatim>\<open>openrtb.AdPosition\<close>, \<^verbatim>\<open>APIFramework\<close>, \<^verbatim>\<open>Protocol\<close>) is \<open>8 word\<close>,
  \<^verbatim>\<open>uint64\<close> and \<^verbatim>\<open>int64\<close> are \<open>64 word\<close>, a pointer field is an \<open>option\<close> with
  \<open>None\<close> for nil. A \<^verbatim>\<open>float64\<close> (floor price, bid price) is the real number it
  denotes: the adapter copies it and compares it with zero, and a value decoded from JSON
  is finite. Banner and video sub-objects are values: no two impressions share one.
\<close>

record Banner =
  Banner_W :: "64 word"
  Banner_H :: "64 word"
  Banner_Pos :: "8 word option"

record Video =
  Video_MIMEs :: "string list"
  Video_MaxDuration :: "64 word"
  Video_Protocols :: "8 word list"
  Video_W :: "64 word"
  Video_H :: "64 word"
  Video_API :: "8 word list"
  Video_Pos :: "8 word option"

record Imp =
  Imp_ID :: string
  Imp_Banner :: "Banner option"
  Imp_Video :: "Video option"
  Imp_DisplayManager :: string
  Imp_BidFloor :: real
  Imp_TagID :: string
  Imp_Secure :: "8 word option"

record Site =
  Site_ID :: string
  Site_Mobile :: "8 word"

record Device =
  Device_UA :: string
  Device_IP :: string

record BidRequest =
  Req_Imp :: "Imp list"
  Req_Site :: "Site option"
  Req_Device :: "Device option"

record Bid =
  Bid_ImpID :: string
  Bid_Price :: real
  Bid_CrID :: string
  Bid_AdM :: string
  Bid_NURL :: string
  Bid_W :: "64 word"
  Bid_H :: "64 word"

record SeatBid =
  SeatBid_Bid :: "Bid list"

record BidResponse =
  Resp_SeatBid :: "SeatBid list"

record PBSBid =
  BidID :: string
  AdUnitCode :: string
  Price :: real
  Creative_id :: string
  BidderCode :: string
  CreativeMediaType :: string
  NURL :: string
  Adm :: string
  Width :: "64 word"
  Height :: "64 word"

record conversantParams =
  Params_SiteID :: string
  Params_Secure :: "bool option"
  Params_TagID :: string
  Params_Position :: "8 word option"
  Params_BidFloor :: real
  Params_Mobile :: "bool option"
  Params_MIMEs :: "string list"
  Params_API :: "8 word list"
  Params_Protocols :: "8 word list"
  Params_MaxDuration :: "64 word option"

record BidderDebug =
  RequestURI :: string
  RequestBody :: string
  StatusCode :: int
  ResponseBody :: string

record PBSAdUnit =
  Unit_Code :: string
  Unit_BidID :: string
  Unit_Params :: string

record PBSBidder =
  Bidder_BidderCode :: string
  Bidder_AdUnits :: "PBSAdUnit list"
  Bidder_Debug :: "BidderDebug list"

record PBSRequest =
  IsDebug :: bool

record ConversantAdapter =
  URI :: string

datatype MediaType = MEDIA_TYPE_BANNER | MEDIA_TYPE_VIDEO

record http_request =
  Method :: string
  URL :: string
  Header :: "(string \<times> string) list"
  Request_Body :: string

text \<open>The response of the endpoint: its status, and what reading its body to the end gives.\<close>

record http_response =
  Response_StatusCode :: int
  Response_Body :: "string + string"

section \<open>The collaborators\<close>

text \<open>
  What \<^verbatim>\<open>Call\<close> uses and this repository's file does not hold: the generic request builder
  and the bid identifier lookup of the host, the JSON library on structs, URL parsing
  inside \<^verbatim>\<open>http.NewRequest\<close>, and the HTTP round trip under the caller's context. They
  are parameters; a failure of one is \<open>Inl\<close> with the error's message, or \<open>None\<close> for
  the JSON decoder. \<open>json_Unmarshal_params\<close> decodes into a zero-valued
  \<^verbatim>\<open>conversantParams\<close>, so a key missing from the block leaves its field at the zero
  value: the empty string, 0, nil, the empty list.
\<close>

record env =
  MakeOpenRTBGeneric ::
    "PBSRequest \<Rightarrow> PBSBidder \<Rightarrow> string \<Rightarrow> MediaType list \<Rightarrow> bool \<Rightarrow> string + BidRequest"
  LookupBidID :: "PBSBidder \<Rightarrow> string \<Rightarrow> string"
  json_Unmarshal_params :: "string \<Rightarrow> conversantParams option"
  json_Marshal :: "BidRequest \<Rightarrow> string"
  url_Parse_ok :: "string \<Rightarrow> bool"
  ctxhttp_Do :: "http_request \<Rightarrow> string + http_response"
  json_Unmarshal_BidResponse :: "string \<Rightarrow> BidResponse option"

definition FamilyName :: "ConversantAdapter \<Rightarrow> string" where
  "FamilyName a = ''conversant''"

section \<open>The impression map\<close>

text \<open>
  \<^verbatim>\<open>impMap[cnvrReq.Imp[idx].ID] = &cnvrReq.Imp[idx]\<close>: the map holds pointers into the
  request's impression slice, so it is a map from an ID to an index of the list, and a
  write through the pointer is an update of the list at that index. A later impression
  with the same ID replaces an earlier one.
\<close>

fun buildImpMap :: "Imp list \<Rightarrow> nat \<Rightarrow> (string \<rightharpoonup> nat) \<Rightarrow> (string \<rightharpoonup> nat)" where
  "buildImpMap [] idx m = m"
| "buildImpMap (imp # imps) idx m = buildImpMap imps (Suc idx) (m(Imp_ID imp \<mapsto> idx))"

definition makeImpMap :: "Imp list \<Rightarrow> (string \<rightharpoonup> nat)" where
  "makeImpMap imps = buildImpMap imps 0 Map.empty"

section \<open>Merging the placement parameters\<close>

text \<open>Lines 122 to 128: a write to \<^verbatim>\<open>cnvrReq.Site\<close> dereferences the pointer.\<close>

definition set_Site :: "(Site \<Rightarrow> Site) \<Rightarrow> BidRequest \<Rightarrow> error + BidRequest" where
  "set_Site f cnvrReq =
     (case Req_Site cnvrReq of
        None \<Rightarrow> Inl NilPointerPanic
      | Some site \<Rightarrow> Inr (cnvrReq\<lparr>Req_Site := Some (f site)\<rparr>))"

definition fill_Site :: "conversantParams \<Rightarrow> BidRequest \<Rightarrow> error + BidRequest" where
  "fill_Site params cnvrReq =
     (case (if Params_SiteID params \<noteq> ''''
            then set_Site (\<lambda>site. site\<lparr>Site_ID := Params_SiteID params\<rparr>) cnvrReq
            else Inr cnvrReq) of
        Inl err \<Rightarrow> Inl err
      | Inr cnvrReq1 \<Rightarrow>
          (case Params_Mobile params of
             None \<Rightarrow> Inr cnvrReq1
           | Some mobile \<Rightarrow> set_Site (\<lambda>site. site\<lparr>Site_Mobile := ToInt8 mobile\<rparr>) cnvrReq1))"

text \<open>Lines 144 to 171, the video branch.\<close>

definition fill_Video :: "conversantParams \<Rightarrow> 8 word option \<Rightarrow> Video \<Rightarrow> Video" where
  "fill_Video params position video =
     (let v1 = video\<lparr>Video_Pos := position\<rparr>;
          v2 = (if length (Params_API params) > 0
                then v1\<lparr>Video_API := Params_API params\<rparr> else v1);
          v3 = (if length (Params_Protocols params) > 0
                then v2\<lparr>Video_Protocols := Params_Protocols params\<rparr> else v2);
          v4 = (if length (Params_MIMEs params) > 0
                then v3\<lparr>Video_MIMEs := Params_MIMEs params\<rparr> else v3)
      in case Params_MaxDuration params of
           None \<Rightarrow> v4
         | Some d \<Rightarrow> v4\<lparr>Video_MaxDuration := d\<rparr>)"

text \<open>Lines 132 to 178, the writes through \<^verbatim>\<open>imp\<close>.\<close>

definition fill_Imp :: "conversantParams \<Rightarrow> Imp \<Rightarrow> Imp" where
  "fill_Imp params imp =
     (let imp1 = imp\<lparr>Imp_DisplayManager := ''prebid-s2s'',
                     Imp_BidFloor := Params_BidFloor params,
                     Imp_TagID := Params_TagID params\<rparr>;
          position = Params_Position params;
          imp2 = (case Imp_Banner imp1 of
                    Some banner \<Rightarrow> imp1\<lparr>Imp_Banner := Some (banner\<lparr>Banner_Pos := position\<rparr>)\<rparr>
                  | None \<Rightarrow>
                      (case Imp_Video imp1 of
                         Some video \<Rightarrow> imp1\<lparr>Imp_Video := Some (fill_Video params position video)\<rparr>
                       | None \<Rightarrow> imp1))
      in case Params_Secure params of
           None \<Rightarrow> imp2
         | Some secure \<Rightarrow>
             if Imp_Secure imp2 = None \<or> Imp_Secure imp2 = Some 0
             then imp2\<lparr>Imp_Secure := Some (ToInt8 secure)\<rparr> else imp2)"

text \<open>One turn of the loop over \<^verbatim>\<open>bidder.AdUnits\<close> (lines 106 to 179).\<close>

definition merge_AdUnit ::
    "env \<Rightarrow> (string \<rightharpoonup> nat) \<Rightarrow> PBSAdUnit \<Rightarrow> BidRequest \<Rightarrow> error + BidRequest" where
  "merge_AdUnit e impMap unit cnvrReq =
     (case impMap (Unit_Code unit) of
        None \<Rightarrow> Inr cnvrReq
      | Some idx \<Rightarrow>
          (case json_Unmarshal_params e (Unit_Params unit) of
             None \<Rightarrow> Inl DecodeError
           | Some params \<Rightarrow>
               (case fill_Site params cnvrReq of
                  Inl err \<Rightarrow> Inl err
                | Inr cnvrReq1 \<Rightarrow>
                    Inr (cnvrReq1\<lparr>Req_Imp :=
                           (Req_Imp cnvrReq1)[idx := fill_Imp params (Req_Imp cnvrReq1 ! idx)]\<rparr>))))"

fun merge_AdUnits ::
    "env \<Rightarrow> (string \<rightharpoonup> nat) \<Rightarrow> PBSAdUnit list \<Rightarrow> BidRequest \<Rightarrow> error + BidRequest" where
  "merge_AdUnits e impMap [] cnvrReq = Inr cnvrReq"
| "merge_AdUnits e impMap (unit # units) cnvrReq =
     (case merge_AdUnit e impMap unit cnvrReq of
        Inl err \<Rightarrow> Inl err
      | Inr cnvrReq1 \<Rightarrow> merge_AdUnits e impMap units cnvrReq1)"

section \<open>Reconciling the response\<close>

text \<open>Lines 264 to 283: the bid record of one bid with its impression and bid identifier.\<close>

definition make_PBSBid :: "PBSBidder \<Rightarrow> Imp \<Rightarrow> Bid \<Rightarrow> string \<Rightarrow> PBSBid" where
  "make_PBSBid bidder imp bid bidID =
     (case Imp_Video imp of
        Some video \<Rightarrow>
          \<lparr>BidID = bidID, AdUnitCode = Bid_ImpID bid, Price = Bid_Price bid,
           Creative_id = Bid_CrID bid, BidderCode = Bidder_BidderCode bidder,
           CreativeMediaType = ''video'', NURL = Bid_AdM bid, Adm = '''',
           Width = Video_W video, Height = Video_H video\<rparr>
      | None \<Rightarrow>
          \<lparr>BidID = bidID, AdUnitCode = Bid_ImpID bid, Price = Bid_Price bid,
           Creative_id = Bid_CrID bid, BidderCode = Bidder_BidderCode bidder,
           CreativeMediaType = ''banner'', NURL = Bid_NURL bid, Adm = Bid_AdM bid,
           Width = Bid_W bid, Height = Bid_H bid\<rparr>)"

text \<open>
  The inner loop over \<^verbatim>\<open>seatbid.Bid\<close> (lines 248 to 286) and the outer loop over
  \<^verbatim>\<open>bidResp.SeatBid\<close>, with the records collected so far. A return inside the inner loop
  leaves both.
\<close>

fun reconcile_Bids ::
    "env \<Rightarrow> PBSBidder \<Rightarrow> (string \<rightharpoonup> nat) \<Rightarrow> Imp list \<Rightarrow> Bid list \<Rightarrow> PBSBid list
       \<Rightarrow> error + PBSBid list" where
  "reconcile_Bids e bidder impMap imps [] bids = Inr bids"
| "reconcile_Bids e bidder impMap imps (bid # rest) bids =
     (if Bid_Price bid \<le> 0 then reconcile_Bids e bidder impMap imps rest bids
      else case impMap (Bid_ImpID bid) of
             None \<Rightarrow> Inl (UnknownImpression (Bid_ImpID bid))
           | Some idx \<Rightarrow>
               (let bidID = LookupBidID e bidder (Bid_ImpID bid) in
                if bidID = '''' then Inl (UnknownAdUnitCode (Bid_ImpID bid))
                else reconcile_Bids e bidder impMap imps rest
                       (bids @ [make_PBSBid bidder (imps ! idx) bid bidID])))"

fun reconcile_SeatBids ::
    "env \<Rightarrow> PBSBidder \<Rightarrow> (string \<rightharpoonup> nat) \<Rightarrow> Imp list \<Rightarrow> SeatBid list \<Rightarrow> PBSBid list
       \<Rightarrow> error + PBSBid list" where
  "reconcile_SeatBids e bidder impMap imps [] bids = Inr bids"
| "reconcile_SeatBids e bidder impMap imps (seatbid # rest) bids =
     (case reconcile_Bids e bidder impMap imps (SeatBid_Bid seatbid) bids of
        Inl err \<Rightarrow> Inl err
      | Inr bids1 \<Rightarrow> reconcile_SeatBids e bidder impMap imps rest bids1)"

section \<open>The call\<close>

text \<open>
  What a call leaves behind: the returned pair (\<open>Inr []\<close> is \<^verbatim>\<open>nil, nil\<close>), the
  requests handed to the HTTP client, and \<^verbatim>\<open>bidder.Debug\<close>.
\<close>

record outcome =
  result :: "error + PBSBid list"
  sent :: "http_request list"
  Debug :: "BidderDebug list"

text \<open>Lines 193 to 195: a request without a device gets an empty one.\<close>

definition ensure_Device :: "BidRequest \<Rightarrow> BidRequest" where
  "ensure_Device cnvrReq =
     (case Req_Device cnvrReq of
        None \<Rightarrow> cnvrReq\<lparr>Req_Device := Some \<lparr>Device_UA = '''', Device_IP = ''''\<rparr>\<rparr>
      | Some device \<Rightarrow> cnvrReq)"

text \<open>Lines 206 to 208: the POST request with its two headers.\<close>

definition httpRequest :: "ConversantAdapter \<Rightarrow> string \<Rightarrow> http_request" where
  "httpRequest a j =
     \<lparr>Method = ''POST'', URL = URI a,
      Header = [(''Content-Type'', ''application/json''), (''Accept'', ''application/json'')],
      Request_Body = j\<rparr>"

text \<open>
  Lines 187 to 294. \<^verbatim>\<open>http.NewRequest\<close> fails only when the URI does not parse; its
  error is dropped and the next line dereferences the nil request. The debug record is
  appended to \<^verbatim>\<open>bidder.Debug\<close> by pointer, so later writes to it show there.
\<close>

definition transmit ::
    "ConversantAdapter \<Rightarrow> env \<Rightarrow> PBSRequest \<Rightarrow> PBSBidder \<Rightarrow> (string \<rightharpoonup> nat) \<Rightarrow> BidRequest
       \<Rightarrow> outcome" where
  "transmit a e req bidder impMap merged =
     (let cnvrReq = ensure_Device merged;
          j = json_Marshal e cnvrReq;
          debug = \<lparr>RequestURI = URI a, RequestBody = (if IsDebug req then j else ''''),
                   StatusCode = 0, ResponseBody = ''''\<rparr>;
          log = (\<lambda>d. if IsDebug req then Bidder_Debug bidder @ [d] else Bidder_Debug bidder)
      in if url_Parse_ok e (URI a) then
           (let httpReq = httpRequest a j
            in case ctxhttp_Do e httpReq of
                 Inl msg \<Rightarrow>
                   \<lparr>result = Inl (TransportError msg), sent = [httpReq], Debug = log debug\<rparr>
               | Inr resp \<Rightarrow>
                   (let debug1 = (if IsDebug req
                                  then debug\<lparr>StatusCode := Response_StatusCode resp\<rparr>
                                  else debug)
                    in if Response_StatusCode resp = 204
                       then \<lparr>result = Inr [], sent = [httpReq], Debug = log debug1\<rparr>
                       else case Response_Body resp of
                              Inl msg \<Rightarrow>
                                \<lparr>result = Inl (ReadError msg), sent = [httpReq],
                                 Debug = log debug1\<rparr>
                            | Inr body \<Rightarrow>
                                if Response_StatusCode resp = 200 then
                                  (let debug2 = (if IsDebug req
                                                 then debug1\<lparr>ResponseBody := body\<rparr>
                                                 else debug1)
                                   in case json_Unmarshal_BidResponse e body of
                                        None \<Rightarrow>
                                          \<lparr>result = Inl DecodeError, sent = [httpReq],
                                           Debug = log debug2\<rparr>
                                      | Some bidResp \<Rightarrow>
                                          \<lparr>result = reconcile_SeatBids e bidder impMap
                                             (Req_Imp cnvrReq) (Resp_SeatBid bidResp) [],
                                           sent = [httpReq], Debug = log debug2\<rparr>)
                                else
                                  \<lparr>result = Inl (HTTPStatusError (Response_StatusCode resp) body),
                                   sent = [httpReq], Debug = log debug1\<rparr>))
         else \<lparr>result = Inl NilPointerPanic, sent = [], Debug = log debug\<rparr>)"

text \<open>
  Lines 88 to 185, then the transmission. Reading \<^verbatim>\<open>cnvrReq.Site.ID\<close> on line 183
  dereferences the site pointer.
\<close>

definition Call :: "ConversantAdapter \<Rightarrow> env \<Rightarrow> PBSRequest \<Rightarrow> PBSBidder \<Rightarrow> outcome" where
  "Call a e req bidder =
     (case MakeOpenRTBGeneric e req bidder (FamilyName a)
             [MEDIA_TYPE_BANNER, MEDIA_TYPE_VIDEO] True of
        Inl msg \<Rightarrow>
          \<lparr>result = Inl (MakeRequestError msg), sent = [], Debug = Bidder_Debug bidder\<rparr>
      | Inr cnvrReq \<Rightarrow>
          (let impMap = makeImpMap (Req_Imp cnvrReq)
           in case merge_AdUnits e impMap (Bidder_AdUnits bidder) cnvrReq of
                Inl err \<Rightarrow> \<lparr>result = Inl err, sent = [], Debug = Bidder_Debug bidder\<rparr>
              | Inr merged \<Rightarrow>
                  (case Req_Site merged of
                     None \<Rightarrow>
                       \<lparr>result = Inl NilPointerPanic, sent = [], Debug = Bidder_Debug bidder\<rparr>
                   | Some site \<Rightarrow>
                       if Site_ID site = ''''
                       then \<lparr>result = Inl MissingSiteId, sent = [], Debug = Bidder_Debug bidder\<rparr>
                       else transmit a e req bidder impMap merged)))"

section \<open>A sample auction\<close>

text \<open>
  A request with a banner and a video impression, two placements for them and one
  placement without an impression, and collaborators that answer as the host and the
  endpoint would. The theorems below are applied to it.
\<close>

definition banner_imp :: Imp where
  "banner_imp =
     \<lparr>Imp_ID = ''slot-banner'',
      Imp_Banner = Some \<lparr>Banner_W = 300, Banner_H = 250, Banner_Pos = Some 1\<rparr>,
      Imp_Video = None, Imp_DisplayManager = '''', Imp_BidFloor = 1.5,
      Imp_TagID = ''tag-0'', Imp_Secure = Some 1\<rparr>"

definition video_imp :: Imp where
  "video_imp =
     \<lparr>Imp_ID = ''slot-video'', Imp_Banner = None,
      Imp_Video = Some \<lparr>Video_MIMEs = [''video/mp4''], Video_MaxDuration = 30,
                         Video_Protocols = [2], Video_W = 640, Video_H = 480,
                         Video_API = [1], Video_Pos = Some 3\<rparr>,
      Imp_DisplayManager = '''', Imp_BidFloor = 0.5, Imp_TagID = ''tag-1'',
      Imp_Secure = Some 0\<rparr>"

definition sample_request :: BidRequest where
  "sample_request =
     \<lparr>Req_Imp = [banner_imp, video_imp],
      Req_Site = Some \<lparr>Site_ID = '''', Site_Mobile = 0\<rparr>,
      Req_Device = None\<rparr>"

text \<open>The decoding of the block \<^verbatim>\<open>{}\<close>: every field absent.\<close>

definition empty_params :: conversantParams where
  "empty_params =
     \<lparr>Params_SiteID = '''', Params_Secure = None, Params_TagID = '''',
      Params_Position = None, Params_BidFloor = 0, Params_Mobile = None,
      Params_MIMEs = [], Params_API = [], Params_Protocols = [],
      Params_MaxDuration = None\<rparr>"

text \<open>The decoding of the block \<^verbatim>\<open>{"site_id":"108060","secure":0,"tag_id":"t9"}\<close>.\<close>

definition site_params :: conversantParams where
  "site_params =
     \<lparr>Params_SiteID = ''108060'', Params_Secure = Some False, Params_TagID = ''t9'',
      Params_Position = None, Params_BidFloor = 0, Params_Mobile = None,
      Params_MIMEs = [], Params_API = [], Params_Protocols = [],
      Params_MaxDuration = None\<rparr>"

definition site_block :: string where
  \<open>site_block = ''{"site_id":"108060","secure":0,"tag_id":"t9"}''\<close>

definition banner_unit :: PBSAdUnit where
  "banner_unit =
     \<lparr>Unit_Code = ''slot-banner'', Unit_BidID = ''bid-1'', Unit_Params = site_block\<rparr>"

definition video_unit :: PBSAdUnit where
  "video_unit = \<lparr>Unit_Code = ''slot-video'', Unit_BidID = ''bid-2'', Unit_Params = ''{}''\<rparr>"

definition stray_unit :: PBSAdUnit where
  "stray_unit = \<lparr>Unit_Code = ''slot-none'', Unit_BidID = ''bid-3'', Unit_Params = ''{]''\<rparr>"

definition sample_bidder :: "PBSAdUnit list \<Rightarrow> PBSBidder" where
  "sample_bidder units =
     \<lparr>Bidder_BidderCode = ''conversant'', Bidder_AdUnits = units, Bidder_Debug = []\<rparr>"

definition sample_adapter :: ConversantAdapter where
  "sample_adapter = \<lparr>URI = ''http://media.msg.dotomi.com/s2s/header''\<rparr>"

definition no_debug :: PBSRequest where
  "no_debug = \<lparr>IsDebug = False\<rparr>"

text \<open>
  The endpoint answers with the given response, and its body decodes to the given bid
  response. The host resolves a placement code to the bid identifier of the bidder's
  first placement of that code, and to the empty string when there is none.

\<close>

definition sample_env :: "http_response \<Rightarrow> BidResponse option \<Rightarrow> env" where
  "sample_env resp decoded =
     \<lparr>MakeOpenRTBGeneric = (\<lambda>req bidder family mediaTypes single. Inr sample_request),
      LookupBidID = (\<lambda>bidder code.
         case find (\<lambda>unit. Unit_Code unit = code) (Bidder_AdUnits bidder) of
           None \<Rightarrow> ''''
         | Some unit \<Rightarrow> Unit_BidID unit),
      json_Unmarshal_params = (\<lambda>blob.
         if blob = ''{}'' then Some empty_params
         else if blob = site_block then Some site_params
         else None),
      json_Marshal = (\<lambda>cnvrReq. ''{}''),
      url_Parse_ok = (\<lambda>uri. True),
      ctxhttp_Do = (\<lambda>httpReq. Inr resp),
      json_Unmarshal_BidResponse = (\<lambda>body. decoded)\<rparr>"

definition no_content :: http_response where
  "no_content = \<lparr>Response_StatusCode = 204, Response_Body = Inr ''''\<rparr>"

definition server_error :: http_response where
  "server_error = \<lparr>Response_StatusCode = 500, Response_Body = Inr ''overloaded''\<rparr>"

definition ok_response :: http_response where
  "ok_response = \<lparr>Response_StatusCode = 200, Response_Body = Inr ''{...}''\<rparr>"

text \<open>
  Bids of a response: one without a price on an ID that no impression has, one on the
  video impression, one on the banner impression, and a priced one on the unknown ID.
\<close>

definition zero_bid :: Bid where
  "zero_bid =
     \<lparr>Bid_ImpID = ''slot-unknown'', Bid_Price = 0, Bid_CrID = ''cr-0'', Bid_AdM = ''<div/>'',
      Bid_NURL = ''http://win.example/0'', Bid_W = 1, Bid_H = 1\<rparr>"

definition video_bid :: Bid where
  "video_bid =
     \<lparr>Bid_ImpID = ''slot-video'', Bid_Price = 2.5, Bid_CrID = ''cr-7'',
      Bid_AdM = ''http://vast.example/7'', Bid_NURL = ''http://win.example/7'',
      Bid_W = 320, Bid_H = 240\<rparr>"

definition banner_bid :: Bid where
  "banner_bid =
     \<lparr>Bid_ImpID = ''slot-banner'', Bid_Price = 1.25, Bid_CrID = ''cr-3'',
      Bid_AdM = ''<img/>'', Bid_NURL = ''http://win.example/3'', Bid_W = 300, Bid_H = 250\<rparr>"

definition stray_bid :: Bid where
  "stray_bid =
     \<lparr>Bid_ImpID = ''slot-unknown'', Bid_Price = 0.75, Bid_CrID = ''cr-9'', Bid_AdM = ''<p/>'',
      Bid_NURL = ''http://win.example/9'', Bid_W = 1, Bid_H = 1\<rparr>"

definition mixed_response :: BidResponse where
  "mixed_response = \<lparr>Resp_SeatBid = [\<lparr>SeatBid_Bid = [video_bid, stray_bid]\<rparr>]\<rparr>"

definition video_response :: BidResponse where
  "video_response = \<lparr>Resp_SeatBid = [\<lparr>SeatBid_Bid = [zero_bid, video_bid]\<rparr>]\<rparr>"

text \<open>The video placement as a host would give it that has no bid identifier for it.\<close>

definition unnamed_video_unit :: PBSAdUnit where
  "unnamed_video_unit = \<lparr>Unit_Code = ''slot-video'', Unit_BidID = '''', Unit_Params = ''{}''\<rparr>"

text \<open>A response with status 500 whose body cannot be read to its end.\<close>

definition broken_response :: http_response where
  "broken_response = \<lparr>Response_StatusCode = 500, Response_Body = Inl ''unexpected EOF''\<rparr>"

text \<open>
  The decoding of the block \<^verbatim>\<open>{"site_id":"108060","secure":true}\<close>, a placement
  of the video impression that holds it, a host whose JSON library decodes it, and the
  sample request without a site object.
\<close>

definition secure_params :: conversantParams where
  "secure_params =
     \<lparr>Params_SiteID = ''108060'', Params_Secure = Some True, Params_TagID = '''',
      Params_Position = None, Params_BidFloor = 0, Params_Mobile = None,
      Params_MIMEs = [], Params_API = [], Params_Protocols = [],
      Params_MaxDuration = None\<rparr>"

definition secure_block :: string where
  \<open>secure_block = ''{"site_id":"108060","secure":true}''\<close>

definition secure_unit :: PBSAdUnit where
  "secure_unit =
     \<lparr>Unit_Code = ''slot-video'', Unit_BidID = ''bid-2'', Unit_Params = secure_block\<rparr>"

definition secure_env :: env where
  "secure_env =
     (sample_env no_content None)
       \<lparr>json_Unmarshal_params :=
          (\<lambda>blob. if blob = secure_block then Some secure_params else None)\<rparr>"

definition siteless_request :: BidRequest where
  "siteless_request = sample_request\<lparr>Req_Site := None\<rparr>"

text \<open>Two seats: the priced bid on the unknown ID first, the bid on the video impression second.\<close>

definition reversed_response :: BidResponse where
  "reversed_response =
     \<lparr>Resp_SeatBid = [\<lparr>SeatBid_Bid = [stray_bid]\<rparr>, \<lparr>SeatBid_Bid = [video_bid]\<rparr>]\<rparr>"

lemma int8_zero_iff:
  assumes "- 128 \<le> n" "n \<le> 127"
  shows "(word_of_int n :: 8 word) = 0 \<longleftrightarrow> n = 0"
proof
  assume "(word_of_int n :: 8 word) = 0"
  then have "(2::int) ^ 8 dvd n" by (simp add: word_of_int_eq_0_iff)
  then obtain k where k: "n = 256 * k" by (auto simp: dvd_def)
  with assms have "k = 0" by arith
  with k show "n = 0" by simp
qed simp

lemmas flexbool_defs =
  FlexBool_UnmarshalJSON_def json_Unmarshal_bool_def json_Unmarshal_int8_def

lemmas literal_defs =
  json_trim_def isSpace_def json_integer_def json_natural_def isDigit_def decimal_def

lemma json_integer_literals:
  "json_integer ''true'' = None" "json_integer ''false'' = None"
  by (simp_all add: json_integer_def json_natural_def isDigit_def)

lemma buildImpMap_None:
  "buildImpMap imps i m k = None \<longleftrightarrow> m k = None \<and> k \<notin> Imp_ID ` set imps"
  by (induction imps arbitrary: i m) auto

lemma buildImpMap_Some:
  "buildImpMap imps i m k = Some idx \<Longrightarrow>
     m k = Some idx \<or> (i \<le> idx \<and> idx < i + length imps \<and> Imp_ID (imps ! (idx - i)) = k)"
proof (induction imps arbitrary: i m)
  case Nil
  then show ?case by simp
next
  case (Cons imp imps)
  from Cons.prems have "buildImpMap imps (Suc i) (m(Imp_ID imp \<mapsto> i)) k = Some idx" by simp
  from Cons.IH [OF this] show ?case
    by (auto simp: nth_Cons' Suc_diff_le split: if_splits)
qed

lemma makeImpMap_None: "makeImpMap imps k = None \<longleftrightarrow> k \<notin> Imp_ID ` set imps"
  by (simp add: makeImpMap_def buildImpMap_None)

lemma makeImpMap_Some:
  "makeImpMap imps k = Some idx \<Longrightarrow> idx < length imps \<and> Imp_ID (imps ! idx) = k"
  using buildImpMap_Some [of imps 0 Map.empty k idx] by (simp add: makeImpMap_def)

lemma fill_Imp_ID: "Imp_ID (fill_Imp params imp) = Imp_ID imp"
  by (simp add: fill_Imp_def Let_def split: option.split)

lemma set_Site_Inr:
  "set_Site f r = Inr r' \<Longrightarrow> \<exists>s. Req_Site r = Some s \<and> r' = r\<lparr>Req_Site := Some (f s)\<rparr>"
  by (auto simp: set_Site_def split: option.splits)

lemma fill_Site_Imp: "fill_Site params r = Inr r' \<Longrightarrow> Req_Imp r' = Req_Imp r"
  by (auto simp: fill_Site_def split: if_splits sum.splits option.splits dest!: set_Site_Inr)

lemma map_update_same: "(map f xs)[i := f (xs ! i)] = map f xs"
  by (metis list_update_id map_update)

lemma merge_AdUnit_IDs:
  "merge_AdUnit e impMap unit r = Inr r' \<Longrightarrow> map Imp_ID (Req_Imp r') = map Imp_ID (Req_Imp r)"
  by (auto simp: merge_AdUnit_def map_update fill_Imp_ID map_update_same
      split: option.splits sum.splits dest!: fill_Site_Imp)

lemma merge_AdUnit_Site:
  "merge_AdUnit e impMap unit r = Inr r' \<Longrightarrow> (Req_Site r' = None) = (Req_Site r = None)"
  by (auto simp: merge_AdUnit_def fill_Site_def set_Site_def
      split: option.splits sum.splits if_splits)

lemma merge_AdUnit_unmatched:
  "impMap (Unit_Code unit) = None \<Longrightarrow> merge_AdUnit e impMap unit r = Inr r"
  by (simp add: merge_AdUnit_def)

lemma merge_AdUnit_matched:
  assumes "impMap (Unit_Code unit) = Some idx"
    and "json_Unmarshal_params e (Unit_Params unit) = Some params"
    and "merge_AdUnit e impMap unit r = Inr r'"
  shows "\<exists>r1. fill_Site params r = Inr r1 \<and>
           r' = r1\<lparr>Req_Imp := (Req_Imp r)[idx := fill_Imp params (Req_Imp r ! idx)]\<rparr>"
  using assms by (auto simp: merge_AdUnit_def split: sum.splits dest: fill_Site_Imp)

lemma merge_AdUnits_append:
  "merge_AdUnits e impMap (us @ vs) r =
     (case merge_AdUnits e impMap us r of
        Inl err \<Rightarrow> Inl err
      | Inr r1 \<Rightarrow> merge_AdUnits e impMap vs r1)"
  by (induction us arbitrary: r) (auto split: sum.splits)

lemma merge_AdUnits_IDs:
  "merge_AdUnits e impMap units r = Inr r' \<Longrightarrow> map Imp_ID (Req_Imp r') = map Imp_ID (Req_Imp r)"
proof (induction units arbitrary: r)
  case Nil
  then show ?case by simp
next
  case (Cons unit units)
  then show ?case
    by (auto split: sum.splits dest!: merge_AdUnit_IDs)
qed

lemma merge_AdUnits_Site:
  "merge_AdUnits e impMap units r = Inr r' \<Longrightarrow> (Req_Site r' = None) = (Req_Site r = None)"
proof (induction units arbitrary: r)
  case Nil
  then show ?case by simp
next
  case (Cons unit units)
  then show ?case
    by (auto split: sum.splits dest!: merge_AdUnit_Site)
qed

lemmas sample_defs =
  banner_imp_def video_imp_def sample_request_def empty_params_def site_params_def
  site_block_def banner_unit_def video_unit_def sample_bidder_def sample_adapter_def
  no_debug_def sample_env_def no_content_def

lemma fill_Imp_Secure:
  "Imp_Secure (fill_Imp params imp) =
     (if Imp_Secure imp = None \<or> Imp_Secure imp = Some 0
      then (case Params_Secure params of
              None \<Rightarrow> Imp_Secure imp
            | Some flag \<Rightarrow> Some (ToInt8 flag))
      else Imp_Secure imp)"
  by (simp add: fill_Imp_def Let_def split: option.split)

lemma fill_Video_fields:
  "Video_Pos (fill_Video params position video) = position"
  "Video_API (fill_Video params position video) =
     (if Params_API params = [] then Video_API video else Params_API params)"
  "Video_Protocols (fill_Video params position video) =
     (if Params_Protocols params = [] then Video_Protocols video else Params_Protocols params)"
  "Video_MIMEs (fill_Video params position video) =
     (if Params_MIMEs params = [] then Video_MIMEs video else Params_MIMEs params)"
  "Video_MaxDuration (fill_Video params position video) =
     (case Params_MaxDuration params of None \<Rightarrow> Video_MaxDuration video | Some d \<Rightarrow> d)"
  "Video_W (fill_Video params position video) = Video_W video"
  "Video_H (fill_Video params position video) = Video_H video"
  by (simp_all add: fill_Video_def Let_def split: option.split)

lemma fill_Imp_fields:
  "Imp_DisplayManager (fill_Imp params imp) = ''prebid-s2s''"
  "Imp_BidFloor (fill_Imp params imp) = Params_BidFloor params"
  "Imp_TagID (fill_Imp params imp) = Params_TagID params"
  "Imp_Banner (fill_Imp params imp) =
     map_option (\<lambda>banner. banner\<lparr>Banner_Pos := Params_Position params\<rparr>) (Imp_Banner imp)"
  "Imp_Video (fill_Imp params imp) =
     (case Imp_Banner imp of
        Some banner \<Rightarrow> Imp_Video imp
      | None \<Rightarrow> map_option (fill_Video params (Params_Position params)) (Imp_Video imp))"
  by (simp_all add: fill_Imp_def Let_def split: option.split)

lemma fill_Site_fields:
  assumes "fill_Site params r = Inr r'"
  shows "map_option Site_ID (Req_Site r') =
           (if Params_SiteID params = [] then map_option Site_ID (Req_Site r)
            else Some (Params_SiteID params))"
    and "map_option Site_Mobile (Req_Site r') =
           (case Params_Mobile params of
              None \<Rightarrow> map_option Site_Mobile (Req_Site r)
            | Some mobile \<Rightarrow> Some (ToInt8 mobile))"
    and "Req_Device r' = Req_Device r"
  using assms
  by (auto simp: fill_Site_def set_Site_def split: if_splits sum.splits option.splits)

section \<open>The flexible boolean decoder\<close>

text \<open>
  C1, as the code has it. For every input other than the literal \<^verbatim>\<open>null\<close> (between
  optional white space): the decoder yields the boolean on \<^verbatim>\<open>true\<close> and \<^verbatim>\<open>false\<close>; on
  an integer literal from -128 to 127 it yields true for a non-zero value and false for
  zero, so \<^verbatim>\<open>1\<close> gives true and \<^verbatim>\<open>0\<close> gives false; on every other text, the string
  \<^verbatim>\<open>"yes"\<close> among them, it fails with a decode error.
\<close>

theorem FlexBool_UnmarshalJSON_cases:
  assumes "json_trim data \<noteq> ''null''"
  shows "FlexBool_UnmarshalJSON data =
     (if json_trim data = ''true'' then Inr True
      else if json_trim data = ''false'' then Inr False
      else case json_integer (json_trim data) of
             None \<Rightarrow> Inl DecodeError
           | Some n \<Rightarrow> if - 128 \<le> n \<and> n \<le> 127 then Inr (n \<noteq> 0) else Inl DecodeError)"
  using assms
  by (simp add: flexbool_defs Let_def int8_zero_iff json_integer_literals split: option.split)

text \<open>The theorem at \<^verbatim>\<open>true\<close>, \<^verbatim>\<open>false\<close>, \<^verbatim>\<open>1\<close>, \<^verbatim>\<open>0\<close> and \<^verbatim>\<open>"yes"\<close>.\<close>

theorem FlexBool_UnmarshalJSON_cases_witness:
  \<open>json_trim ''true'' \<noteq> ''null'' \<and> FlexBool_UnmarshalJSON ''true'' = Inr True
   \<and> json_trim ''false'' \<noteq> ''null'' \<and> FlexBool_UnmarshalJSON ''false'' = Inr False
   \<and> json_trim ''1'' \<noteq> ''null'' \<and> FlexBool_UnmarshalJSON ''1'' = Inr True
   \<and> json_trim ''0'' \<noteq> ''null'' \<and> FlexBool_UnmarshalJSON ''0'' = Inr False
   \<and> json_trim ''"yes"'' \<noteq> ''null'' \<and> FlexBool_UnmarshalJSON ''"yes"'' = Inl DecodeError\<close>
  using FlexBool_UnmarshalJSON_cases [of \<open>''true''\<close>]
    FlexBool_UnmarshalJSON_cases [of \<open>''false''\<close>]
    FlexBool_UnmarshalJSON_cases [of \<open>''1''\<close>]
    FlexBool_UnmarshalJSON_cases [of \<open>''0''\<close>]
    FlexBool_UnmarshalJSON_cases [of \<open>''"yes"''\<close>]
  by (simp add: literal_defs)

text \<open>
  C1 as the spec states it fails: the integer \<^verbatim>\<open>2\<close> is none of the four encodings and
  decodes to true, and the literal \<^verbatim>\<open>null\<close> decodes to false without an error.
\<close>

theorem FlexBool_UnmarshalJSON_counterexample:
  "FlexBool_UnmarshalJSON ''2'' = Inr True \<and> FlexBool_UnmarshalJSON ''null'' = Inr False"
  by (simp add: flexbool_defs literal_defs)

section \<open>The merge, placement by placement\<close>

text \<open>
  C9. A placement whose code is the ID of no impression of the request is skipped: its
  turn of the loop returns the request as it was, impressions included, with no error,
  whatever its parameter block holds; and the whole merge is the merge without that
  placement.
\<close>

theorem unmatched_placement_skipped:
  assumes "Unit_Code unit \<notin> Imp_ID ` set (Req_Imp cnvrReq)"
  shows "merge_AdUnit e (makeImpMap (Req_Imp cnvrReq)) unit current = Inr current
       \<and> merge_AdUnits e (makeImpMap (Req_Imp cnvrReq)) (before @ unit # after) cnvrReq =
           merge_AdUnits e (makeImpMap (Req_Imp cnvrReq)) (before @ after) cnvrReq"
proof -
  from assms have "makeImpMap (Req_Imp cnvrReq) (Unit_Code unit) = None"
    by (simp add: makeImpMap_None)
  then have step: "merge_AdUnit e (makeImpMap (Req_Imp cnvrReq)) unit r = Inr r" for r
    by (rule merge_AdUnit_unmatched)
  show ?thesis
    by (simp add: step merge_AdUnits_append split: sum.split)
qed

theorem unmatched_placement_skipped_witness:
  "Unit_Code stray_unit \<notin> Imp_ID ` set (Req_Imp sample_request)
   \<and> merge_AdUnit (sample_env no_content None) (makeImpMap (Req_Imp sample_request))
         stray_unit sample_request = Inr sample_request
   \<and> merge_AdUnits (sample_env no_content None) (makeImpMap (Req_Imp sample_request))
         [banner_unit, stray_unit, video_unit] sample_request =
       merge_AdUnits (sample_env no_content None) (makeImpMap (Req_Imp sample_request))
         [banner_unit, video_unit] sample_request"
proof -
  have h: "Unit_Code stray_unit \<notin> Imp_ID ` set (Req_Imp sample_request)"
    by (simp add: sample_defs stray_unit_def)
  from unmatched_placement_skipped [OF h, of "sample_env no_content None" sample_request
      "[banner_unit]" "[video_unit]"] h
  show ?thesis by simp
qed

text \<open>
  C5, as the code has it. A placement with an impression is merged, and the request has
  a site object or the parameters set neither the site identifier nor the mobile flag.
  Then the turn of the loop succeeds, and in the merged request the impression's secure
  flag is as it was if it was set and non-zero, whatever the parameters say; if it was
  nil or 0, a secure flag in the parameters is written as 1 for true and 0 for false, and
  without one the flag stays.
\<close>

theorem secure_flag_merge:
  assumes "impMap (Unit_Code unit) = Some idx"
    and "idx < length (Req_Imp cnvrReq)"
    and "json_Unmarshal_params e (Unit_Params unit) = Some params"
    and "Req_Site cnvrReq \<noteq> None \<or> (Params_SiteID params = [] \<and> Params_Mobile params = None)"
  shows "\<exists>merged. merge_AdUnit e impMap unit cnvrReq = Inr merged \<and>
     Imp_Secure (Req_Imp merged ! idx) =
       (case Imp_Secure (Req_Imp cnvrReq ! idx) of
          None \<Rightarrow> map_option (\<lambda>flag. if flag then 1 else 0) (Params_Secure params)
        | Some s \<Rightarrow>
            if s = 0
            then (case Params_Secure params of
                    None \<Rightarrow> Some 0
                  | Some flag \<Rightarrow> Some (if flag then 1 else 0))
            else Some s)"
proof -
  from assms(4) have "\<exists>r1. fill_Site params cnvrReq = Inr r1"
    by (cases "Req_Site cnvrReq"; cases "Params_Mobile params")
      (simp_all add: fill_Site_def set_Site_def)
  then obtain r1 where r1: "fill_Site params cnvrReq = Inr r1" ..
  let ?merged = "r1\<lparr>Req_Imp :=
      (Req_Imp r1)[idx := fill_Imp params (Req_Imp r1 ! idx)]\<rparr>"
  from assms(1,3) r1 have ok: "merge_AdUnit e impMap unit cnvrReq = Inr ?merged"
    by (simp add: merge_AdUnit_def)
  from fill_Site_Imp [OF r1] assms(2)
  have "Imp_Secure (Req_Imp ?merged ! idx) =
      Imp_Secure (fill_Imp params (Req_Imp cnvrReq ! idx))"
    by simp
  then have "Imp_Secure (Req_Imp ?merged ! idx) =
      (case Imp_Secure (Req_Imp cnvrReq ! idx) of
         None \<Rightarrow> map_option (\<lambda>flag. if flag then 1 else 0) (Params_Secure params)
       | Some s \<Rightarrow>
           if s = 0
           then (case Params_Secure params of
                   None \<Rightarrow> Some 0
                 | Some flag \<Rightarrow> Some (if flag then 1 else 0))
           else Some s)"
    by (simp add: fill_Imp_Secure ToInt8_def split: option.split)
  with ok show ?thesis
    by blast
qed

text \<open>
  The banner impression has secure flag 1 and its placement asks for secure 0: the flag
  stays 1. The video impression has secure flag 0 and its placement asks for secure
  true: the flag becomes 1.
\<close>

theorem secure_flag_merge_witness:
  "makeImpMap (Req_Imp sample_request) (Unit_Code banner_unit) = Some 0
   \<and> 0 < length (Req_Imp sample_request)
   \<and> json_Unmarshal_params (sample_env no_content None) (Unit_Params banner_unit) =
       Some site_params
   \<and> Req_Site sample_request \<noteq> None
   \<and> Params_Secure site_params = Some False
   \<and> Imp_Secure (Req_Imp sample_request ! 0) = Some 1
   \<and> (\<exists>merged. merge_AdUnit (sample_env no_content None) (makeImpMap (Req_Imp sample_request))
                  banner_unit sample_request = Inr merged
         \<and> Imp_Secure (Req_Imp merged ! 0) = Some 1)
   \<and> makeImpMap (Req_Imp sample_request) (Unit_Code secure_unit) = Some 1
   \<and> 1 < length (Req_Imp sample_request)
   \<and> json_Unmarshal_params secure_env (Unit_Params secure_unit) = Some secure_params
   \<and> Params_Secure secure_params = Some True
   \<and> Imp_Secure (Req_Imp sample_request ! 1) = Some 0
   \<and> (\<exists>merged. merge_AdUnit secure_env (makeImpMap (Req_Imp sample_request))
                  secure_unit sample_request = Inr merged
         \<and> Imp_Secure (Req_Imp merged ! 1) = Some 1)"
proof -
  let ?e = "sample_env no_content None" and ?m = "makeImpMap (Req_Imp sample_request)"
  have h1: "?m (Unit_Code banner_unit) = Some 0"
    by (simp add: makeImpMap_def sample_defs)
  have h2: "0 < length (Req_Imp sample_request)"
    by (simp add: sample_defs)
  have h3: "json_Unmarshal_params ?e (Unit_Params banner_unit) = Some site_params"
    by (simp add: sample_defs)
  have s: "Req_Site sample_request \<noteq> None"
    by (simp add: sample_request_def)
  then have h4: "Req_Site sample_request \<noteq> None \<or>
      (Params_SiteID site_params = [] \<and> Params_Mobile site_params = None)"
    and k4: "Req_Site sample_request \<noteq> None \<or>
      (Params_SiteID secure_params = [] \<and> Params_Mobile secure_params = None)"
    by simp_all
  have h5: "Imp_Secure (Req_Imp sample_request ! 0) = Some 1"
    "Params_Secure site_params = Some False"
    by (simp_all add: sample_defs)
  have k1: "?m (Unit_Code secure_unit) = Some (Suc 0)"
    by (simp add: makeImpMap_def sample_defs secure_unit_def)
  have k2: "Suc 0 < length (Req_Imp sample_request)"
    by (simp add: sample_defs)
  have k3: "json_Unmarshal_params secure_env (Unit_Params secure_unit) = Some secure_params"
    by (simp add: secure_env_def secure_unit_def)
  have k5: "Imp_Secure (Req_Imp sample_request ! Suc 0) = Some 0"
    "Params_Secure secure_params = Some True"
    by (simp_all add: sample_defs secure_params_def)
  from secure_flag_merge [where impMap = ?m, OF h1 h2 h3 h4]
    secure_flag_merge [where impMap = ?m, OF k1 k2 k3 k4]
    h1 h2 h3 s h5 k1 k2 k3 k5
  show ?thesis
    by simp
qed

text \<open>
  C5 as the spec states it fails. The request has no site object; the video impression
  has secure flag 0 and its placement supplies a site identifier and secure true. The
  turn of the loop stops at the write of the site identifier, and the secure flag is not
  written.
\<close>

theorem secure_flag_merge_counterexample:
  "Req_Site siteless_request = None
   \<and> Imp_Secure (Req_Imp siteless_request ! 1) = Some 0
   \<and> makeImpMap (Req_Imp siteless_request) (Unit_Code secure_unit) = Some 1
   \<and> json_Unmarshal_params secure_env (Unit_Params secure_unit) = Some secure_params
   \<and> Params_Secure secure_params = Some True
   \<and> Params_SiteID secure_params = ''108060''
   \<and> merge_AdUnit secure_env (makeImpMap (Req_Imp siteless_request)) secure_unit
        siteless_request = Inl NilPointerPanic"
  by (simp add: merge_AdUnit_def makeImpMap_def fill_Site_def set_Site_def sample_defs
      siteless_request_def secure_unit_def secure_env_def secure_params_def)

text \<open>Over the whole loop: a secure flag that is set and not zero is never written.\<close>

lemma merge_AdUnit_keeps_secure:
  assumes "merge_AdUnit e impMap unit r = Inr r'"
    and "i < length (Req_Imp r)"
    and "Imp_Secure (Req_Imp r ! i) = Some s"
    and "s \<noteq> 0"
  shows "Imp_Secure (Req_Imp r' ! i) = Some s"
proof (cases "impMap (Unit_Code unit)")
  case None
  with assms(1,3) show ?thesis
    by (simp add: merge_AdUnit_def)
next
  case (Some idx)
  with assms(1) obtain params where
    params: "json_Unmarshal_params e (Unit_Params unit) = Some params"
    by (cases "json_Unmarshal_params e (Unit_Params unit)") (simp_all add: merge_AdUnit_def)
  from merge_AdUnit_matched [OF Some params assms(1)] obtain r1 where
    r': "r' = r1\<lparr>Req_Imp := (Req_Imp r)[idx := fill_Imp params (Req_Imp r ! idx)]\<rparr>"
    by blast
  show ?thesis
  proof (cases "i = idx")
    case True
    with r' assms(2,3,4) show ?thesis
      by (simp add: fill_Imp_Secure)
  next
    case False
    with r' assms(3) show ?thesis
      by simp
  qed
qed

lemma merge_AdUnits_keeps_secure:
  assumes "merge_AdUnits e impMap units r = Inr r'"
    and "i < length (Req_Imp r)"
    and "Imp_Secure (Req_Imp r ! i) = Some s"
    and "s \<noteq> 0"
  shows "Imp_Secure (Req_Imp r' ! i) = Some s"
  using assms(1,2,3)
proof (induction units arbitrary: r)
  case Nil
  then show ?case by simp
next
  case (Cons unit units)
  from Cons.prems(1) obtain r1 where
    step: "merge_AdUnit e impMap unit r = Inr r1"
    and rest: "merge_AdUnits e impMap units r1 = Inr r'"
    by (auto split: sum.splits)
  from merge_AdUnit_IDs [OF step] have "length (Req_Imp r1) = length (Req_Imp r)"
    by (metis length_map)
  with Cons.prems(2) have len: "i < length (Req_Imp r1)" by simp
  from merge_AdUnit_keeps_secure [OF step Cons.prems(2,3) assms(4)]
  have "Imp_Secure (Req_Imp r1 ! i) = Some s" .
  from Cons.IH [OF rest len this] show ?case .
qed

text \<open>
  C7, as the code has it. When a placement with an impression is merged: a site
  identifier, mobile flag or secure flag that the block leaves out keeps the request's
  site identifier, mobile indicator and the impression's secure flag; for a video
  impression, an API, protocol or MIME list left out (or empty) and a maximal duration
  left out keep the video's. The floor price and the placement tag are written on every
  merge, and so is the position of the banner, or of the video when there is no banner:
  left out, they become 0, the empty string and nil.
\<close>

theorem absent_parameters_merge:
  assumes "impMap (Unit_Code unit) = Some idx"
    and "idx < length (Req_Imp cnvrReq)"
    and "json_Unmarshal_params e (Unit_Params unit) = Some params"
    and "merge_AdUnit e impMap unit cnvrReq = Inr merged"
  shows "(Params_SiteID params = [] \<longrightarrow>
            map_option Site_ID (Req_Site merged) = map_option Site_ID (Req_Site cnvrReq))
       \<and> (Params_Mobile params = None \<longrightarrow>
            map_option Site_Mobile (Req_Site merged) = map_option Site_Mobile (Req_Site cnvrReq))
       \<and> (Params_Secure params = None \<longrightarrow>
            Imp_Secure (Req_Imp merged ! idx) = Imp_Secure (Req_Imp cnvrReq ! idx))
       \<and> (Params_API params = [] \<longrightarrow>
            map_option Video_API (Imp_Video (Req_Imp merged ! idx)) =
            map_option Video_API (Imp_Video (Req_Imp cnvrReq ! idx)))
       \<and> (Params_Protocols params = [] \<longrightarrow>
            map_option Video_Protocols (Imp_Video (Req_Imp merged ! idx)) =
            map_option Video_Protocols (Imp_Video (Req_Imp cnvrReq ! idx)))
       \<and> (Params_MIMEs params = [] \<longrightarrow>
            map_option Video_MIMEs (Imp_Video (Req_Imp merged ! idx)) =
            map_option Video_MIMEs (Imp_Video (Req_Imp cnvrReq ! idx)))
       \<and> (Params_MaxDuration params = None \<longrightarrow>
            map_option Video_MaxDuration (Imp_Video (Req_Imp merged ! idx)) =
            map_option Video_MaxDuration (Imp_Video (Req_Imp cnvrReq ! idx)))
       \<and> Imp_BidFloor (Req_Imp merged ! idx) = Params_BidFloor params
       \<and> Imp_TagID (Req_Imp merged ! idx) = Params_TagID params
       \<and> map_option Banner_Pos (Imp_Banner (Req_Imp merged ! idx)) =
           map_option (\<lambda>banner. Params_Position params) (Imp_Banner (Req_Imp cnvrReq ! idx))
       \<and> (Imp_Banner (Req_Imp cnvrReq ! idx) = None \<longrightarrow>
            map_option Video_Pos (Imp_Video (Req_Imp merged ! idx)) =
            map_option (\<lambda>video. Params_Position params) (Imp_Video (Req_Imp cnvrReq ! idx)))"
proof -
  let ?old = "Req_Imp cnvrReq ! idx"
  from merge_AdUnit_matched [OF assms(1) assms(3) assms(4)] obtain r1 where
    site: "fill_Site params cnvrReq = Inr r1" and
    merged: "merged = r1\<lparr>Req_Imp := (Req_Imp cnvrReq)[idx := fill_Imp params ?old]\<rparr>"
    by blast
  from merged assms(2) have new: "Req_Imp merged ! idx = fill_Imp params ?old"
    by simp
  from merged have "Req_Site merged = Req_Site r1"
    by simp
  with fill_Site_fields(1,2) [OF site]
  have s1: "Params_SiteID params = [] \<longrightarrow>
      map_option Site_ID (Req_Site merged) = map_option Site_ID (Req_Site cnvrReq)"
    and s2: "Params_Mobile params = None \<longrightarrow>
      map_option Site_Mobile (Req_Site merged) = map_option Site_Mobile (Req_Site cnvrReq)"
    by simp_all
  have v: "Imp_Video (fill_Imp params ?old) = Imp_Video ?old \<or>
      Imp_Banner ?old = None \<and>
      Imp_Video (fill_Imp params ?old) =
        map_option (fill_Video params (Params_Position params)) (Imp_Video ?old)"
    by (simp add: fill_Imp_fields split: option.split)
  have v1: "Params_API params = [] \<longrightarrow>
      map_option Video_API (Imp_Video (fill_Imp params ?old)) =
      map_option Video_API (Imp_Video ?old)"
    using v by (auto simp: option.map_comp comp_def fill_Video_fields)
  have v2: "Params_Protocols params = [] \<longrightarrow>
      map_option Video_Protocols (Imp_Video (fill_Imp params ?old)) =
      map_option Video_Protocols (Imp_Video ?old)"
    using v by (auto simp: option.map_comp comp_def fill_Video_fields)
  have v3: "Params_MIMEs params = [] \<longrightarrow>
      map_option Video_MIMEs (Imp_Video (fill_Imp params ?old)) =
      map_option Video_MIMEs (Imp_Video ?old)"
    using v by (auto simp: option.map_comp comp_def fill_Video_fields)
  have v4: "Params_MaxDuration params = None \<longrightarrow>
      map_option Video_MaxDuration (Imp_Video (fill_Imp params ?old)) =
      map_option Video_MaxDuration (Imp_Video ?old)"
    using v by (auto simp: option.map_comp comp_def fill_Video_fields)
  have b: "map_option Banner_Pos (Imp_Banner (fill_Imp params ?old)) =
      map_option (\<lambda>banner. Params_Position params) (Imp_Banner ?old)"
    by (simp add: fill_Imp_fields option.map_comp comp_def)
  have p: "Imp_Banner ?old = None \<longrightarrow>
      map_option Video_Pos (Imp_Video (fill_Imp params ?old)) =
      map_option (\<lambda>video. Params_Position params) (Imp_Video ?old)"
    by (simp add: fill_Imp_fields option.map_comp comp_def fill_Video_fields)
  have sec: "Params_Secure params = None \<longrightarrow>
      Imp_Secure (fill_Imp params ?old) = Imp_Secure ?old"
    by (simp add: fill_Imp_Secure)
  show ?thesis
    unfolding new using s1 s2 sec v1 v2 v3 v4 b p
    by (simp add: fill_Imp_fields)
qed

text \<open>
  The video placement's block is \<^verbatim>\<open>{}\<close>: every field is left out. The merge keeps the
  site and the video's lists, and resets floor price, tag and position.
\<close>

theorem absent_parameters_merge_witness:
  "makeImpMap (Req_Imp sample_request) (Unit_Code video_unit) = Some 1
   \<and> 1 < length (Req_Imp sample_request)
   \<and> json_Unmarshal_params (sample_env no_content None) (Unit_Params video_unit) =
       Some empty_params
   \<and> (\<exists>merged. merge_AdUnit (sample_env no_content None) (makeImpMap (Req_Imp sample_request))
                  video_unit sample_request = Inr merged
         \<and> Req_Site merged = Req_Site sample_request
         \<and> map_option Video_API (Imp_Video (Req_Imp merged ! 1)) = Some [1]
         \<and> map_option Video_MIMEs (Imp_Video (Req_Imp merged ! 1)) = Some [''video/mp4'']
         \<and> Imp_Secure (Req_Imp merged ! 1) = Some 0
         \<and> Imp_BidFloor (Req_Imp merged ! 1) = 0
         \<and> Imp_TagID (Req_Imp merged ! 1) = []
         \<and> map_option Video_Pos (Imp_Video (Req_Imp merged ! 1)) = Some None)"
proof -
  let ?e = "sample_env no_content None" and ?m = "makeImpMap (Req_Imp sample_request)"
  have h1: "?m (Unit_Code video_unit) = Some 1"
    by (simp add: makeImpMap_def sample_defs)
  have h2: "1 < length (Req_Imp sample_request)"
    by (simp add: sample_defs)
  have h3: "json_Unmarshal_params ?e (Unit_Params video_unit) = Some empty_params"
    by (simp add: sample_defs)
  have h4: "merge_AdUnit ?e ?m video_unit sample_request =
      Inr (sample_request\<lparr>Req_Imp :=
        (Req_Imp sample_request)[1 := fill_Imp empty_params (Req_Imp sample_request ! 1)]\<rparr>)"
    by (simp add: merge_AdUnit_def h1 h3 fill_Site_def) (simp add: empty_params_def)
  have old: "Req_Imp sample_request ! Suc 0 = video_imp"
    by (simp add: sample_request_def)
  have vals: "Params_SiteID empty_params = []" "Params_Mobile empty_params = None"
    "Params_Secure empty_params = None" "Params_API empty_params = []"
    "Params_MIMEs empty_params = []" "Params_BidFloor empty_params = 0"
    "Params_TagID empty_params = []" "Params_Position empty_params = None"
    "Imp_Banner video_imp = None" "Imp_Secure video_imp = Some 0"
    "map_option Video_API (Imp_Video video_imp) = Some [1]"
    "map_option Video_MIMEs (Imp_Video video_imp) = Some [''video/mp4'']"
    "map_option (\<lambda>video. None :: 8 word option) (Imp_Video video_imp) = Some None"
    by (simp_all add: empty_params_def video_imp_def)
  from absent_parameters_merge [OF h1 h2 h3 h4] h1 h2 h3 h4
  show ?thesis
    by (simp add: old vals)
qed

text \<open>
  C7 as the spec states it fails. The video impression has floor price 0.5, tag
  \<^verbatim>\<open>tag-1\<close> and position 3; its placement's block \<^verbatim>\<open>{}\<close> names none of them; after
  the merge they are 0, the empty string and nil.
\<close>

theorem absent_parameters_counterexample:
  "json_Unmarshal_params (sample_env no_content None) (Unit_Params video_unit) =
     Some empty_params
   \<and> Imp_BidFloor video_imp = 0.5 \<and> Imp_TagID video_imp = ''tag-1''
   \<and> map_option Video_Pos (Imp_Video video_imp) = Some (Some 3)
   \<and> merge_AdUnit (sample_env no_content None) (makeImpMap (Req_Imp sample_request))
        video_unit sample_request =
      Inr (sample_request\<lparr>Req_Imp :=
        [banner_imp,
         video_imp\<lparr>Imp_Video := Some \<lparr>Video_MIMEs = [''video/mp4''], Video_MaxDuration = 30,
                                        Video_Protocols = [2], Video_W = 640, Video_H = 480,
                                        Video_API = [1], Video_Pos = None\<rparr>,
                    Imp_DisplayManager := ''prebid-s2s'', Imp_BidFloor := 0,
                    Imp_TagID := []\<rparr>]\<rparr>)"
  by (simp add: merge_AdUnit_def makeImpMap_def fill_Site_def fill_Imp_def fill_Video_def
      sample_defs)

section \<open>The call before and at the transmission\<close>

lemma merge_AdUnit_errors:
  "merge_AdUnit e impMap unit r = Inl err \<Longrightarrow>
     err = DecodeError \<or> (err = NilPointerPanic \<and> Req_Site r = None)"
  by (auto simp: merge_AdUnit_def fill_Site_def set_Site_def
      split: option.splits sum.splits if_splits)

lemma merge_AdUnits_errors:
  "merge_AdUnits e impMap units r = Inl err \<Longrightarrow>
     err = DecodeError \<or> (err = NilPointerPanic \<and> Req_Site r = None)"
proof (induction units arbitrary: r)
  case Nil
  then show ?case by simp
next
  case (Cons unit units)
  show ?case
  proof (cases "merge_AdUnit e impMap unit r")
    case (Inl err1)
    with Cons.prems have "err1 = err" by simp
    with Inl show ?thesis by (auto dest: merge_AdUnit_errors)
  next
    case (Inr r1)
    with Cons.prems have "merge_AdUnits e impMap units r1 = Inl err" by simp
    from Cons.IH [OF this] merge_AdUnit_Site [OF Inr] show ?thesis by auto
  qed
qed

lemma merge_AdUnits_undecodable:
  assumes "unit \<in> set units"
    and "impMap (Unit_Code unit) = Some idx"
    and "json_Unmarshal_params e (Unit_Params unit) = None"
  shows "\<exists>err. merge_AdUnits e impMap units r = Inl err"
  using assms(1)
proof (induction units arbitrary: r)
  case Nil
  then show ?case by simp
next
  case (Cons first units)
  show ?case
  proof (cases "merge_AdUnit e impMap first r")
    case (Inl err)
    then show ?thesis by simp
  next
    case (Inr r1)
    have "first \<noteq> unit"
    proof
      assume "first = unit"
      with assms(2,3) have "merge_AdUnit e impMap first r = Inl DecodeError"
        by (simp add: merge_AdUnit_def)
      with Inr show False by simp
    qed
    with Cons.prems have "unit \<in> set units" by auto
    from Cons.IH [OF this] Inr show ?thesis by simp
  qed
qed

lemma transmit_sent:
  "sent (transmit a e req bidder impMap merged) =
     (if url_Parse_ok e (URI a)
      then [httpRequest a (json_Marshal e (ensure_Device merged))] else [])"
  by (simp add: transmit_def Let_def split: sum.split option.split)

lemma transmit_result:
  assumes "url_Parse_ok e (URI a)"
    and "ctxhttp_Do e (httpRequest a (json_Marshal e (ensure_Device merged))) = Inr resp"
  shows "result (transmit a e req bidder impMap merged) =
     (if Response_StatusCode resp = 204 then Inr []
      else case Response_Body resp of
             Inl msg \<Rightarrow> Inl (ReadError msg)
           | Inr body \<Rightarrow>
               if Response_StatusCode resp = 200
               then (case json_Unmarshal_BidResponse e body of
                       None \<Rightarrow> Inl DecodeError
                     | Some bidResp \<Rightarrow>
                         reconcile_SeatBids e bidder impMap (Req_Imp merged)
                           (Resp_SeatBid bidResp) [])
               else Inl (HTTPStatusError (Response_StatusCode resp) body))"
proof -
  have "Req_Imp (ensure_Device merged) = Req_Imp merged"
    by (simp add: ensure_Device_def split: option.split)
  with assms show ?thesis
    by (simp add: transmit_def Let_def split: sum.split option.split)
qed

text \<open>The call in one equation: what precedes the transmission, then \<open>transmit\<close>.\<close>

lemma Call_cases:
  "Call a e req bidder =
     (case MakeOpenRTBGeneric e req bidder (FamilyName a)
             [MEDIA_TYPE_BANNER, MEDIA_TYPE_VIDEO] True of
        Inl msg \<Rightarrow>
          \<lparr>result = Inl (MakeRequestError msg), sent = [], Debug = Bidder_Debug bidder\<rparr>
      | Inr cnvrReq \<Rightarrow>
          (case merge_AdUnits e (makeImpMap (Req_Imp cnvrReq)) (Bidder_AdUnits bidder) cnvrReq of
             Inl err \<Rightarrow> \<lparr>result = Inl err, sent = [], Debug = Bidder_Debug bidder\<rparr>
           | Inr merged \<Rightarrow>
               (case Req_Site merged of
                  None \<Rightarrow>
                    \<lparr>result = Inl NilPointerPanic, sent = [], Debug = Bidder_Debug bidder\<rparr>
                | Some site \<Rightarrow>
                    if Site_ID site = []
                    then \<lparr>result = Inl MissingSiteId, sent = [], Debug = Bidder_Debug bidder\<rparr>
                    else transmit a e req bidder (makeImpMap (Req_Imp cnvrReq)) merged)))"
  by (simp add: Call_def Let_def split: sum.split)

lemma Call_sent:
  assumes "sent (Call a e req bidder) = [httpReq]"
  shows "\<exists>cnvrReq merged.
      MakeOpenRTBGeneric e req bidder (FamilyName a) [MEDIA_TYPE_BANNER, MEDIA_TYPE_VIDEO] True =
        Inr cnvrReq
    \<and> merge_AdUnits e (makeImpMap (Req_Imp cnvrReq)) (Bidder_AdUnits bidder) cnvrReq = Inr merged
    \<and> Call a e req bidder = transmit a e req bidder (makeImpMap (Req_Imp cnvrReq)) merged
    \<and> url_Parse_ok e (URI a)
    \<and> httpReq = httpRequest a (json_Marshal e (ensure_Device merged))"
  using assms
  by (auto simp: Call_cases transmit_sent split: sum.splits option.splits if_splits)

text \<open>
  C8, as the code has it. When a placement of the bidder has an impression in the generic
  request and its parameter block does not decode, the call hands no request to the HTTP
  client and fails, so that it yields no bids; the error is the decode error when the
  generic request has a site object. (Without one, an earlier placement that sets the
  site identifier or the mobile flag stops the call by a nil dereference.)
\<close>

theorem undecodable_placement_fails:
  assumes "MakeOpenRTBGeneric e req bidder (FamilyName a)
             [MEDIA_TYPE_BANNER, MEDIA_TYPE_VIDEO] True = Inr cnvrReq"
    and "unit \<in> set (Bidder_AdUnits bidder)"
    and "Unit_Code unit \<in> Imp_ID ` set (Req_Imp cnvrReq)"
    and "json_Unmarshal_params e (Unit_Params unit) = None"
  shows "sent (Call a e req bidder) = []
       \<and> (result (Call a e req bidder) = Inl DecodeError
            \<or> result (Call a e req bidder) = Inl NilPointerPanic)
       \<and> (case Req_Site cnvrReq of
            None \<Rightarrow> True
          | Some site \<Rightarrow> result (Call a e req bidder) = Inl DecodeError)"
proof -
  let ?m = "makeImpMap (Req_Imp cnvrReq)"
  from assms(3) obtain idx where "?m (Unit_Code unit) = Some idx"
    by (cases "?m (Unit_Code unit)") (simp_all add: makeImpMap_None)
  from merge_AdUnits_undecodable [where impMap = "?m", OF assms(2) this assms(4)]
  obtain err where err: "merge_AdUnits e ?m (Bidder_AdUnits bidder) cnvrReq = Inl err"
    by blast
  from merge_AdUnits_errors [OF err]
  have kinds: "err = DecodeError \<or> (err = NilPointerPanic \<and> Req_Site cnvrReq = None)" .
  from assms(1) err have "Call a e req bidder =
      \<lparr>result = Inl err, sent = [], Debug = Bidder_Debug bidder\<rparr>"
    by (simp add: Call_cases)
  with kinds show ?thesis
    by (auto split: option.split)
qed

text \<open>
  The stray placement's block \<^verbatim>\<open>{]\<close> does not decode. Given the ID of the banner
  impression, it stops the call.
\<close>

theorem undecodable_placement_fails_witness:
  "MakeOpenRTBGeneric (sample_env no_content None) no_debug
       (sample_bidder [video_unit, stray_unit\<lparr>Unit_Code := ''slot-banner''\<rparr>])
       (FamilyName sample_adapter) [MEDIA_TYPE_BANNER, MEDIA_TYPE_VIDEO] True = Inr sample_request
   \<and> stray_unit\<lparr>Unit_Code := ''slot-banner''\<rparr> \<in>
       set (Bidder_AdUnits (sample_bidder [video_unit, stray_unit\<lparr>Unit_Code := ''slot-banner''\<rparr>]))
   \<and> Unit_Code (stray_unit\<lparr>Unit_Code := ''slot-banner''\<rparr>) \<in> Imp_ID ` set (Req_Imp sample_request)
   \<and> json_Unmarshal_params (sample_env no_content None)
       (Unit_Params (stray_unit\<lparr>Unit_Code := ''slot-banner''\<rparr>)) = None
   \<and> sent (Call sample_adapter (sample_env no_content None) no_debug
        (sample_bidder [video_unit, stray_unit\<lparr>Unit_Code := ''slot-banner''\<rparr>])) = []
   \<and> result (Call sample_adapter (sample_env no_content None) no_debug
        (sample_bidder [video_unit, stray_unit\<lparr>Unit_Code := ''slot-banner''\<rparr>])) = Inl DecodeError"
proof -
  let ?e = "sample_env no_content None"
  let ?u = "stray_unit\<lparr>Unit_Code := ''slot-banner''\<rparr>"
  let ?b = "sample_bidder [video_unit, ?u]"
  have h1: "MakeOpenRTBGeneric ?e no_debug ?b (FamilyName sample_adapter)
      [MEDIA_TYPE_BANNER, MEDIA_TYPE_VIDEO] True = Inr sample_request"
    by (simp add: sample_env_def)
  have h2: "?u \<in> set (Bidder_AdUnits ?b)"
    by (simp add: sample_bidder_def)
  have h3: "Unit_Code ?u \<in> Imp_ID ` set (Req_Imp sample_request)"
    by (simp add: sample_defs stray_unit_def)
  have h4: "json_Unmarshal_params ?e (Unit_Params ?u) = None"
    by (simp add: sample_defs stray_unit_def)
  have h5: "Req_Site sample_request = Some \<lparr>Site_ID = [], Site_Mobile = 0\<rparr>"
    by (simp add: sample_request_def)
  from undecodable_placement_fails [OF h1 h2 h3 h4] h1 h2 h3 h4
  show ?thesis
    by (simp add: h5)
qed

text \<open>
  C8 as the spec states it fails. The stray placement's block does not decode, but no
  impression has its code: the loop passes it by, the request is sent, and the call
  returns without error (here with no bids, on status 204).
\<close>

theorem undecodable_placement_counterexample:
  "json_Unmarshal_params (sample_env no_content None) (Unit_Params stray_unit) = None
   \<and> stray_unit \<in> set (Bidder_AdUnits (sample_bidder [banner_unit, stray_unit]))
   \<and> result (Call sample_adapter (sample_env no_content None) no_debug
        (sample_bidder [banner_unit, stray_unit])) = Inr []
   \<and> sent (Call sample_adapter (sample_env no_content None) no_debug
        (sample_bidder [banner_unit, stray_unit])) =
      [httpRequest sample_adapter ''{}'']"
  by (simp add: Call_def transmit_def makeImpMap_def merge_AdUnit_def fill_Site_def
      set_Site_def sample_defs stray_unit_def)

text \<open>
  C4. When the generic request is built, every placement is merged without error and the
  merged request's site identifier is the empty string, the call fails with the missing
  site identifier error and hands no request to the HTTP client.
\<close>

theorem missing_site_id_fails:
  assumes "MakeOpenRTBGeneric e req bidder (FamilyName a)
             [MEDIA_TYPE_BANNER, MEDIA_TYPE_VIDEO] True = Inr cnvrReq"
    and "merge_AdUnits e (makeImpMap (Req_Imp cnvrReq)) (Bidder_AdUnits bidder) cnvrReq =
           Inr merged"
    and "map_option Site_ID (Req_Site merged) = Some []"
  shows "result (Call a e req bidder) = Inl MissingSiteId \<and> sent (Call a e req bidder) = []"
  using assms by (auto simp: Call_cases)

text \<open>The video placement's block \<^verbatim>\<open>{}\<close> has no site identifier, nor has the request.\<close>

theorem missing_site_id_fails_witness:
  "MakeOpenRTBGeneric (sample_env no_content None) no_debug (sample_bidder [video_unit])
       (FamilyName sample_adapter) [MEDIA_TYPE_BANNER, MEDIA_TYPE_VIDEO] True = Inr sample_request
   \<and> (\<exists>merged. merge_AdUnits (sample_env no_content None) (makeImpMap (Req_Imp sample_request))
          (Bidder_AdUnits (sample_bidder [video_unit])) sample_request = Inr merged
        \<and> map_option Site_ID (Req_Site merged) = Some [])
   \<and> result (Call sample_adapter (sample_env no_content None) no_debug
        (sample_bidder [video_unit])) = Inl MissingSiteId
   \<and> sent (Call sample_adapter (sample_env no_content None) no_debug
        (sample_bidder [video_unit])) = []"
proof -
  let ?e = "sample_env no_content None"
  let ?b = "sample_bidder [video_unit]"
  let ?merged = "sample_request\<lparr>Req_Imp :=
        (Req_Imp sample_request)[1 := fill_Imp empty_params (Req_Imp sample_request ! 1)]\<rparr>"
  have h1: "MakeOpenRTBGeneric ?e no_debug ?b (FamilyName sample_adapter)
      [MEDIA_TYPE_BANNER, MEDIA_TYPE_VIDEO] True = Inr sample_request"
    by (simp add: sample_env_def)
  have m: "makeImpMap (Req_Imp sample_request) (Unit_Code video_unit) = Some 1"
    by (simp add: makeImpMap_def sample_defs)
  have d: "json_Unmarshal_params ?e (Unit_Params video_unit) = Some empty_params"
    by (simp add: sample_defs)
  have h2: "merge_AdUnits ?e (makeImpMap (Req_Imp sample_request)) (Bidder_AdUnits ?b)
      sample_request = Inr ?merged"
    by (simp add: sample_bidder_def merge_AdUnit_def m d fill_Site_def)
      (simp add: empty_params_def)
  have h3: "map_option Site_ID (Req_Site ?merged) = Some []"
    by (simp add: sample_request_def)
  from missing_site_id_fails [OF h1 h2 h3] h1 h2 h3
  show ?thesis
    by blast
qed

text \<open>
  C6, as the code has it. When the call has handed a request to the HTTP client and the
  client has returned a response: on status 204 the call returns no bids and no error;
  on a status other than 200 and 204 the call fails and yields no bids, with the error
  that holds that status and the body when the body is read to its end, and with the
  read error when reading the body fails.
\<close>

theorem status_handling:
  assumes "sent (Call a e req bidder) = [httpReq]"
    and "ctxhttp_Do e httpReq = Inr resp"
  shows "(Response_StatusCode resp = 204 \<longrightarrow> result (Call a e req bidder) = Inr [])
       \<and> (Response_StatusCode resp \<noteq> 204 \<and> Response_StatusCode resp \<noteq> 200 \<longrightarrow>
            (case Response_Body resp of
               Inl msg \<Rightarrow> result (Call a e req bidder) = Inl (ReadError msg)
             | Inr body \<Rightarrow>
                 result (Call a e req bidder) =
                   Inl (HTTPStatusError (Response_StatusCode resp) body)))"
proof -
  from Call_sent [OF assms(1)] obtain cnvrReq merged where
    "MakeOpenRTBGeneric e req bidder (FamilyName a) [MEDIA_TYPE_BANNER, MEDIA_TYPE_VIDEO] True =
       Inr cnvrReq"
    and "merge_AdUnits e (makeImpMap (Req_Imp cnvrReq)) (Bidder_AdUnits bidder) cnvrReq =
       Inr merged"
    and call: "Call a e req bidder = transmit a e req bidder (makeImpMap (Req_Imp cnvrReq)) merged"
    and url: "url_Parse_ok e (URI a)"
    and req: "httpReq = httpRequest a (json_Marshal e (ensure_Device merged))"
    by (elim exE conjE)
  from assms(2) req
  have "ctxhttp_Do e (httpRequest a (json_Marshal e (ensure_Device merged))) = Inr resp"
    by simp
  from transmit_result [OF url this] call show ?thesis
    by (simp split: sum.split)
qed

text \<open>
  The endpoint answers 204 in the first call, 500 with a body in the second, and 500
  with a body that cannot be read in the third.
\<close>

theorem status_handling_witness:
  "sent (Call sample_adapter (sample_env no_content None) no_debug (sample_bidder [banner_unit])) =
     [httpRequest sample_adapter ''{}'']
   \<and> ctxhttp_Do (sample_env no_content None) (httpRequest sample_adapter ''{}'') = Inr no_content
   \<and> Response_StatusCode no_content = 204
   \<and> result (Call sample_adapter (sample_env no_content None) no_debug
        (sample_bidder [banner_unit])) = Inr []
   \<and> sent (Call sample_adapter (sample_env server_error None) no_debug
        (sample_bidder [banner_unit])) = [httpRequest sample_adapter ''{}'']
   \<and> ctxhttp_Do (sample_env server_error None) (httpRequest sample_adapter ''{}'') =
        Inr server_error
   \<and> Response_StatusCode server_error = 500
   \<and> Response_Body server_error = Inr ''overloaded''
   \<and> result (Call sample_adapter (sample_env server_error None) no_debug
        (sample_bidder [banner_unit])) = Inl (HTTPStatusError 500 ''overloaded'')
   \<and> sent (Call sample_adapter (sample_env broken_response None) no_debug
        (sample_bidder [banner_unit])) = [httpRequest sample_adapter ''{}'']
   \<and> ctxhttp_Do (sample_env broken_response None) (httpRequest sample_adapter ''{}'') =
        Inr broken_response
   \<and> Response_StatusCode broken_response = 500
   \<and> Response_Body broken_response = Inl ''unexpected EOF''
   \<and> result (Call sample_adapter (sample_env broken_response None) no_debug
        (sample_bidder [banner_unit])) = Inl (ReadError ''unexpected EOF'')"
proof -
  let ?b = "sample_bidder [banner_unit]"
  have s: "sent (Call sample_adapter (sample_env resp None) no_debug ?b) =
      [httpRequest sample_adapter ''{}'']" for resp
    by (simp add: Call_cases transmit_sent makeImpMap_def merge_AdUnit_def fill_Site_def
        set_Site_def sample_defs)
  have d: "ctxhttp_Do (sample_env resp None) (httpRequest sample_adapter ''{}'') = Inr resp"
    for resp
    by (simp add: sample_env_def)
  have v: "Response_StatusCode no_content = 204" "Response_StatusCode server_error = 500"
    "Response_Body server_error = Inr ''overloaded''"
    "Response_StatusCode broken_response = 500"
    "Response_Body broken_response = Inl ''unexpected EOF''"
    by (simp_all add: no_content_def server_error_def broken_response_def)
  from status_handling [OF s d, of no_content] status_handling [OF s d, of server_error]
    status_handling [OF s d, of broken_response] s d v
  show ?thesis
    by simp
qed

text \<open>
  C6 as the spec states it fails. The endpoint answers 500 and the body cannot be read:
  the request was sent, and the call fails with the read error, which holds neither the
  status nor a body.
\<close>

theorem status_handling_counterexample:
  "Response_StatusCode broken_response = 500
   \<and> sent (Call sample_adapter (sample_env broken_response None) no_debug
        (sample_bidder [banner_unit])) = [httpRequest sample_adapter ''{}'']
   \<and> ctxhttp_Do (sample_env broken_response None) (httpRequest sample_adapter ''{}'') =
        Inr broken_response
   \<and> result (Call sample_adapter (sample_env broken_response None) no_debug
        (sample_bidder [banner_unit])) = Inl (ReadError ''unexpected EOF'')"
  by (simp add: Call_def transmit_def makeImpMap_def merge_AdUnit_def fill_Site_def
      set_Site_def ensure_Device_def httpRequest_def sample_defs broken_response_def)

section \<open>The response, reconciled\<close>

lemma reconcile_Bids_append:
  "reconcile_Bids e bidder impMap imps (xs @ ys) bids =
     (case reconcile_Bids e bidder impMap imps xs bids of
        Inl err \<Rightarrow> Inl err
      | Inr bids1 \<Rightarrow> reconcile_Bids e bidder impMap imps ys bids1)"
  by (induction xs arbitrary: bids) (auto simp: Let_def split: option.splits)

lemma reconcile_SeatBids_append:
  "reconcile_SeatBids e bidder impMap imps (xs @ ys) bids =
     (case reconcile_SeatBids e bidder impMap imps xs bids of
        Inl err \<Rightarrow> Inl err
      | Inr bids1 \<Rightarrow> reconcile_SeatBids e bidder impMap imps ys bids1)"
  by (induction xs arbitrary: bids) (auto split: sum.splits)

text \<open>An error of the loops names the bid that raised it.\<close>

lemma reconcile_Bids_error:
  "reconcile_Bids e bidder impMap imps xs bids = Inl err \<Longrightarrow>
     \<exists>bid \<in> set xs. 0 < Bid_Price bid \<and>
       (impMap (Bid_ImpID bid) = None \<and> err = UnknownImpression (Bid_ImpID bid)
        \<or> impMap (Bid_ImpID bid) \<noteq> None \<and> LookupBidID e bidder (Bid_ImpID bid) = []
            \<and> err = UnknownAdUnitCode (Bid_ImpID bid))"
proof (induction xs arbitrary: bids)
  case Nil
  then show ?case by simp
next
  case (Cons x xs)
  show ?case
  proof (cases "Bid_Price x \<le> 0")
    case True
    with Cons.prems have "reconcile_Bids e bidder impMap imps xs bids = Inl err" by simp
    from Cons.IH [OF this] show ?thesis by auto
  next
    case False
    show ?thesis
    proof (cases "impMap (Bid_ImpID x)")
      case None
      with False Cons.prems show ?thesis by auto
    next
      case (Some idx)
      show ?thesis
      proof (cases "LookupBidID e bidder (Bid_ImpID x) = []")
        case True
        with False Some Cons.prems show ?thesis by auto
      next
        case nonempty: False
        with False Some Cons.prems
        have "reconcile_Bids e bidder impMap imps xs
            (bids @ [make_PBSBid bidder (imps ! idx) x (LookupBidID e bidder (Bid_ImpID x))]) =
            Inl err"
          by (simp add: Let_def)
        from Cons.IH [OF this] show ?thesis by auto
      qed
    qed
  qed
qed

lemma reconcile_SeatBids_error:
  "reconcile_SeatBids e bidder impMap imps seats bids = Inl err \<Longrightarrow>
     \<exists>seat \<in> set seats. \<exists>bid \<in> set (SeatBid_Bid seat). 0 < Bid_Price bid \<and>
       (impMap (Bid_ImpID bid) = None \<and> err = UnknownImpression (Bid_ImpID bid)
        \<or> impMap (Bid_ImpID bid) \<noteq> None \<and> LookupBidID e bidder (Bid_ImpID bid) = []
            \<and> err = UnknownAdUnitCode (Bid_ImpID bid))"
proof (induction seats arbitrary: bids)
  case Nil
  then show ?case by simp
next
  case (Cons seat seats)
  show ?case
  proof (cases "reconcile_Bids e bidder impMap imps (SeatBid_Bid seat) bids")
    case (Inl err1)
    with Cons.prems have "err1 = err" by simp
    with Inl reconcile_Bids_error [of e bidder impMap imps "SeatBid_Bid seat" bids err]
    show ?thesis by auto
  next
    case (Inr bids1)
    with Cons.prems have "reconcile_SeatBids e bidder impMap imps seats bids1 = Inl err" by simp
    from Cons.IH [OF this] show ?thesis by auto
  qed
qed

text \<open>A priced bid on an unknown impression makes the loops fail.\<close>

lemma reconcile_Bids_unknown:
  assumes "bid \<in> set xs" and "0 < Bid_Price bid" and "impMap (Bid_ImpID bid) = None"
  shows "\<exists>err. reconcile_Bids e bidder impMap imps xs bids = Inl err"
  using assms(1)
proof (induction xs arbitrary: bids)
  case Nil
  then show ?case by simp
next
  case (Cons x xs)
  show ?case
  proof (cases "x = bid")
    case True
    with assms(2,3) show ?thesis by simp
  next
    case False
    with Cons.prems have "bid \<in> set xs" by simp
    from Cons.IH [OF this] show ?thesis
      by (simp add: Let_def split: option.split)
  qed
qed

lemma reconcile_SeatBids_unknown:
  assumes "seat \<in> set seats" and "bid \<in> set (SeatBid_Bid seat)"
    and "0 < Bid_Price bid" and "impMap (Bid_ImpID bid) = None"
  shows "\<exists>err. reconcile_SeatBids e bidder impMap imps seats bids = Inl err"
  using assms(1)
proof (induction seats arbitrary: bids)
  case Nil
  then show ?case by simp
next
  case (Cons s seats)
  show ?case
  proof (cases "reconcile_Bids e bidder impMap imps (SeatBid_Bid s) bids")
    case (Inl err)
    then show ?thesis by simp
  next
    case (Inr bids1)
    have "s \<noteq> seat"
    proof
      assume "s = seat"
      with reconcile_Bids_unknown [where impMap = impMap, OF assms(2,3,4), of e bidder imps bids] Inr
      show False by simp
    qed
    with Cons.prems have "seat \<in> set seats" by simp
    from Cons.IH [OF this] Inr show ?thesis by simp
  qed
qed

text \<open>A call that receives status 200 and decodes the body returns what the loops return.\<close>

lemma Call_reconciles:
  assumes "MakeOpenRTBGeneric e req bidder (FamilyName a)
             [MEDIA_TYPE_BANNER, MEDIA_TYPE_VIDEO] True = Inr cnvrReq"
    and "sent (Call a e req bidder) = [httpReq]"
    and "ctxhttp_Do e httpReq = Inr resp"
    and "Response_StatusCode resp = 200"
    and "Response_Body resp = Inr body"
    and "json_Unmarshal_BidResponse e body = Some bidResp"
  shows "\<exists>merged.
      merge_AdUnits e (makeImpMap (Req_Imp cnvrReq)) (Bidder_AdUnits bidder) cnvrReq = Inr merged
    \<and> result (Call a e req bidder) =
        reconcile_SeatBids e bidder (makeImpMap (Req_Imp cnvrReq)) (Req_Imp merged)
          (Resp_SeatBid bidResp) []"
proof -
  from Call_sent [OF assms(2)] obtain cnvrReq1 merged where
    gen: "MakeOpenRTBGeneric e req bidder (FamilyName a) [MEDIA_TYPE_BANNER, MEDIA_TYPE_VIDEO] True =
       Inr cnvrReq1"
    and merge: "merge_AdUnits e (makeImpMap (Req_Imp cnvrReq1)) (Bidder_AdUnits bidder) cnvrReq1 =
       Inr merged"
    and call: "Call a e req bidder = transmit a e req bidder (makeImpMap (Req_Imp cnvrReq1)) merged"
    and url: "url_Parse_ok e (URI a)"
    and req: "httpReq = httpRequest a (json_Marshal e (ensure_Device merged))"
    by (elim exE conjE)
  from gen assms(1) have same: "cnvrReq1 = cnvrReq" by simp
  from assms(3) req
  have "ctxhttp_Do e (httpRequest a (json_Marshal e (ensure_Device merged))) = Inr resp"
    by simp
  from transmit_result [OF url this] call assms(4,5,6)
  have "result (Call a e req bidder) =
      reconcile_SeatBids e bidder (makeImpMap (Req_Imp cnvrReq1)) (Req_Imp merged)
        (Resp_SeatBid bidResp) []"
    by simp
  with merge same show ?thesis by auto
qed

text \<open>The two loops are one loop over the bids of all seats in their order.\<close>

lemma reconcile_SeatBids_concat:
  "reconcile_SeatBids e bidder impMap imps seats bids =
     reconcile_Bids e bidder impMap imps (concat (map SeatBid_Bid seats)) bids"
  by (induction seats arbitrary: bids) (simp_all add: reconcile_Bids_append split: sum.split)

text \<open>
  A bid fails when it has a positive price and either no impression or an empty bid
  identifier. The loop returns the error of the first bid that fails.
\<close>

lemma reconcile_Bids_at_first_failure:
  assumes "\<forall>b \<in> set before. Bid_Price b \<le> 0 \<or>
      (impMap (Bid_ImpID b) \<noteq> None \<and> LookupBidID e bidder (Bid_ImpID b) \<noteq> [])"
    and "0 < Bid_Price first"
    and "impMap (Bid_ImpID first) = None \<or> LookupBidID e bidder (Bid_ImpID first) = []"
  shows "reconcile_Bids e bidder impMap imps (before @ first # after) bids =
     Inl (if impMap (Bid_ImpID first) = None then UnknownImpression (Bid_ImpID first)
          else UnknownAdUnitCode (Bid_ImpID first))"
  using assms(1)
proof (induction before arbitrary: bids)
  case Nil
  from assms(2,3) show ?case
    by (auto simp: Let_def split: option.split)
next
  case (Cons x before)
  then show ?case
    by (auto simp: Let_def split: option.split)
qed

lemma reconcile_Bids_first_failure:
  "reconcile_Bids e bidder impMap imps xs bids = Inl err \<Longrightarrow>
     \<exists>before first after. xs = before @ first # after
       \<and> (\<forall>b \<in> set before. Bid_Price b \<le> 0 \<or>
             (impMap (Bid_ImpID b) \<noteq> None \<and> LookupBidID e bidder (Bid_ImpID b) \<noteq> []))
       \<and> 0 < Bid_Price first
       \<and> (impMap (Bid_ImpID first) = None \<or> LookupBidID e bidder (Bid_ImpID first) = [])
       \<and> err = (if impMap (Bid_ImpID first) = None then UnknownImpression (Bid_ImpID first)
                 else UnknownAdUnitCode (Bid_ImpID first))"
proof (induction xs arbitrary: bids)
  case Nil
  then show ?case by simp
next
  case (Cons x xs)
  let ?ok = "\<lambda>b. Bid_Price b \<le> 0 \<or>
      (impMap (Bid_ImpID b) \<noteq> None \<and> LookupBidID e bidder (Bid_ImpID b) \<noteq> [])"
  show ?case
  proof (cases "?ok x")
    case True
    with Cons.prems obtain bids1 where
      "reconcile_Bids e bidder impMap imps xs bids1 = Inl err"
      by (auto simp: Let_def split: if_splits option.splits)
    from Cons.IH [OF this] obtain before first after where
      xs: "xs = before @ first # after"
      and before: "\<forall>b \<in> set before. ?ok b"
      and first: "0 < Bid_Price first"
        "impMap (Bid_ImpID first) = None \<or> LookupBidID e bidder (Bid_ImpID first) = []"
        "err = (if impMap (Bid_ImpID first) = None then UnknownImpression (Bid_ImpID first)
                else UnknownAdUnitCode (Bid_ImpID first))"
      by blast
    from xs have "x # xs = (x # before) @ first # after"
      by simp
    moreover from True before have "\<forall>b \<in> set (x # before). ?ok b"
      by simp
    ultimately show ?thesis
      using first by blast
  next
    case False
    then have priced: "0 < Bid_Price x"
      and fails: "impMap (Bid_ImpID x) = None \<or> LookupBidID e bidder (Bid_ImpID x) = []"
      by auto
    from reconcile_Bids_at_first_failure [of "[]" impMap e bidder x imps xs bids] priced fails
      Cons.prems
    have "err = (if impMap (Bid_ImpID x) = None then UnknownImpression (Bid_ImpID x)
                 else UnknownAdUnitCode (Bid_ImpID x))"
      by simp
    moreover have "x # xs = [] @ x # xs" by simp
    moreover have "\<forall>b \<in> set []. ?ok b" by simp
    ultimately show ?thesis
      using priced fails by blast
  qed
qed

text \<open>
  C2, as the code has it. When the decoded response holds a bid with a positive price
  whose impression ID no impression of the request has, the call fails and yields no
  bids. Among the bids of all seats in their order, a bid fails when its price is
  positive and either no impression has its ID or the host's bid identifier for its ID
  is empty. The call's error is that of the first bid that fails: the unknown impression
  error in the one case, the unknown ad unit code error in the other. So it is the
  unknown impression error when no priced bid on a known impression has an empty bid
  identifier.
\<close>

theorem unknown_impression_fails:
  assumes "MakeOpenRTBGeneric e req bidder (FamilyName a)
             [MEDIA_TYPE_BANNER, MEDIA_TYPE_VIDEO] True = Inr cnvrReq"
    and "sent (Call a e req bidder) = [httpReq]"
    and "ctxhttp_Do e httpReq = Inr resp"
    and "Response_StatusCode resp = 200"
    and "Response_Body resp = Inr body"
    and "json_Unmarshal_BidResponse e body = Some bidResp"
    and "seat \<in> set (Resp_SeatBid bidResp)"
    and "bid \<in> set (SeatBid_Bid seat)"
    and "0 < Bid_Price bid"
    and "Bid_ImpID bid \<notin> Imp_ID ` set (Req_Imp cnvrReq)"
  shows "(\<exists>before first after.
            concat (map SeatBid_Bid (Resp_SeatBid bidResp)) = before @ first # after
          \<and> (\<forall>b \<in> set before. Bid_Price b \<le> 0 \<or>
                (Bid_ImpID b \<in> Imp_ID ` set (Req_Imp cnvrReq)
                 \<and> LookupBidID e bidder (Bid_ImpID b) \<noteq> []))
          \<and> 0 < Bid_Price first
          \<and> (Bid_ImpID first \<notin> Imp_ID ` set (Req_Imp cnvrReq)
                \<and> result (Call a e req bidder) = Inl (UnknownImpression (Bid_ImpID first))
              \<or> Bid_ImpID first \<in> Imp_ID ` set (Req_Imp cnvrReq)
                \<and> LookupBidID e bidder (Bid_ImpID first) = []
                \<and> result (Call a e req bidder) = Inl (UnknownAdUnitCode (Bid_ImpID first))))
       \<and> (\<forall>before first after.
            concat (map SeatBid_Bid (Resp_SeatBid bidResp)) = before @ first # after
          \<and> (\<forall>b \<in> set before. Bid_Price b \<le> 0 \<or>
                (Bid_ImpID b \<in> Imp_ID ` set (Req_Imp cnvrReq)
                 \<and> LookupBidID e bidder (Bid_ImpID b) \<noteq> []))
          \<and> 0 < Bid_Price first
          \<and> (Bid_ImpID first \<notin> Imp_ID ` set (Req_Imp cnvrReq)
              \<or> LookupBidID e bidder (Bid_ImpID first) = [])
          \<longrightarrow> result (Call a e req bidder) =
                Inl (if Bid_ImpID first \<notin> Imp_ID ` set (Req_Imp cnvrReq)
                     then UnknownImpression (Bid_ImpID first)
                     else UnknownAdUnitCode (Bid_ImpID first)))
       \<and> ((\<forall>s \<in> set (Resp_SeatBid bidResp). \<forall>b \<in> set (SeatBid_Bid s).
              0 < Bid_Price b \<and> Bid_ImpID b \<in> Imp_ID ` set (Req_Imp cnvrReq) \<longrightarrow>
              LookupBidID e bidder (Bid_ImpID b) \<noteq> []) \<longrightarrow>
           (\<exists>code. code \<notin> Imp_ID ` set (Req_Imp cnvrReq)
              \<and> result (Call a e req bidder) = Inl (UnknownImpression code)))"
proof -
  let ?m = "makeImpMap (Req_Imp cnvrReq)"
  let ?all = "concat (map SeatBid_Bid (Resp_SeatBid bidResp))"
  have known: "(?m k = None) = (k \<notin> Imp_ID ` set (Req_Imp cnvrReq))" for k
    by (rule makeImpMap_None)
  from Call_reconciles [OF assms(1-6)] obtain merged :: BidRequest where
    "result (Call a e req bidder) =
      reconcile_SeatBids e bidder ?m (Req_Imp merged) (Resp_SeatBid bidResp) []"
    by blast
  then have res: "result (Call a e req bidder) =
      reconcile_Bids e bidder ?m (Req_Imp merged) ?all []"
    by (simp add: reconcile_SeatBids_concat)
  from assms(10) have "?m (Bid_ImpID bid) = None"
    by (simp add: known)
  moreover from assms(7,8) have "bid \<in> set ?all"
    by auto
  ultimately obtain err where
    err: "reconcile_Bids e bidder ?m (Req_Imp merged) ?all [] = Inl err"
    using reconcile_Bids_unknown [where impMap = ?m, OF _ assms(9)] by blast
  from reconcile_Bids_first_failure [OF err] obtain before first after where
    split: "?all = before @ first # after"
    and before: "\<forall>b \<in> set before. Bid_Price b \<le> 0 \<or>
        (?m (Bid_ImpID b) \<noteq> None \<and> LookupBidID e bidder (Bid_ImpID b) \<noteq> [])"
    and priced: "0 < Bid_Price first"
    and fails: "?m (Bid_ImpID first) = None \<or> LookupBidID e bidder (Bid_ImpID first) = []"
    and which: "err = (if ?m (Bid_ImpID first) = None then UnknownImpression (Bid_ImpID first)
        else UnknownAdUnitCode (Bid_ImpID first))"
    by blast
  have first: "\<exists>before first after. ?all = before @ first # after
      \<and> (\<forall>b \<in> set before. Bid_Price b \<le> 0 \<or>
            (Bid_ImpID b \<in> Imp_ID ` set (Req_Imp cnvrReq)
             \<and> LookupBidID e bidder (Bid_ImpID b) \<noteq> []))
      \<and> 0 < Bid_Price first
      \<and> (Bid_ImpID first \<notin> Imp_ID ` set (Req_Imp cnvrReq)
            \<and> result (Call a e req bidder) = Inl (UnknownImpression (Bid_ImpID first))
          \<or> Bid_ImpID first \<in> Imp_ID ` set (Req_Imp cnvrReq)
            \<and> LookupBidID e bidder (Bid_ImpID first) = []
            \<and> result (Call a e req bidder) = Inl (UnknownAdUnitCode (Bid_ImpID first)))"
  proof (intro exI conjI)
    show "?all = before @ first # after" by (rule split)
    show "\<forall>b \<in> set before. Bid_Price b \<le> 0 \<or>
        (Bid_ImpID b \<in> Imp_ID ` set (Req_Imp cnvrReq)
         \<and> LookupBidID e bidder (Bid_ImpID b) \<noteq> [])"
      using before by (simp add: known)
    show "0 < Bid_Price first" by (rule priced)
    show "Bid_ImpID first \<notin> Imp_ID ` set (Req_Imp cnvrReq)
          \<and> result (Call a e req bidder) = Inl (UnknownImpression (Bid_ImpID first))
        \<or> Bid_ImpID first \<in> Imp_ID ` set (Req_Imp cnvrReq)
          \<and> LookupBidID e bidder (Bid_ImpID first) = []
          \<and> result (Call a e req bidder) = Inl (UnknownAdUnitCode (Bid_ImpID first))"
      using fails which res err by (auto simp: known)
  qed
  have every: "result (Call a e req bidder) =
      Inl (if Bid_ImpID f \<notin> Imp_ID ` set (Req_Imp cnvrReq)
           then UnknownImpression (Bid_ImpID f) else UnknownAdUnitCode (Bid_ImpID f))"
    if "?all = bs @ f # as"
      and "\<forall>b \<in> set bs. Bid_Price b \<le> 0 \<or>
        (Bid_ImpID b \<in> Imp_ID ` set (Req_Imp cnvrReq)
         \<and> LookupBidID e bidder (Bid_ImpID b) \<noteq> [])"
      and "0 < Bid_Price f"
      and "Bid_ImpID f \<notin> Imp_ID ` set (Req_Imp cnvrReq) \<or> LookupBidID e bidder (Bid_ImpID f) = []"
    for bs f as
  proof -
    from that(2) have ok: "\<forall>b \<in> set bs. Bid_Price b \<le> 0 \<or>
        (?m (Bid_ImpID b) \<noteq> None \<and> LookupBidID e bidder (Bid_ImpID b) \<noteq> [])"
      by (simp add: known)
    from that(4) have bad: "?m (Bid_ImpID f) = None \<or> LookupBidID e bidder (Bid_ImpID f) = []"
      by (simp add: known)
    have "reconcile_Bids e bidder ?m (Req_Imp merged) (bs @ f # as) [] =
        Inl (if ?m (Bid_ImpID f) = None then UnknownImpression (Bid_ImpID f)
             else UnknownAdUnitCode (Bid_ImpID f))"
      by (rule reconcile_Bids_at_first_failure [where impMap = ?m, OF ok that(3) bad])
    with res that(1) show ?thesis
      by (simp add: known)
  qed
  have named: "\<exists>code. code \<notin> Imp_ID ` set (Req_Imp cnvrReq)
        \<and> result (Call a e req bidder) = Inl (UnknownImpression code)"
    if all: "\<forall>s \<in> set (Resp_SeatBid bidResp). \<forall>b \<in> set (SeatBid_Bid s).
        0 < Bid_Price b \<and> Bid_ImpID b \<in> Imp_ID ` set (Req_Imp cnvrReq) \<longrightarrow>
        LookupBidID e bidder (Bid_ImpID b) \<noteq> []"
  proof -
    from split have "first \<in> set ?all" by simp
    then obtain s where "s \<in> set (Resp_SeatBid bidResp)" "first \<in> set (SeatBid_Bid s)"
      by auto
    with all priced have "Bid_ImpID first \<in> Imp_ID ` set (Req_Imp cnvrReq) \<longrightarrow>
        LookupBidID e bidder (Bid_ImpID first) \<noteq> []"
      by blast
    with fails have none: "?m (Bid_ImpID first) = None"
      by (auto simp: known)
    with which res err have "result (Call a e req bidder) =
        Inl (UnknownImpression (Bid_ImpID first))"
      by simp
    with none show ?thesis
      by (auto simp: known)
  qed
  from first every named show ?thesis
    by blast
qed

lemmas mixed_defs =
  ok_response_def mixed_response_def reversed_response_def video_bid_def stray_bid_def
  unnamed_video_unit_def

text \<open>
  The first response holds a bid on the video impression and then a priced bid on an ID
  that no impression has; both placements have bid identifiers. The second holds the
  priced bid on the unknown ID first and the bid on the video impression after it, and
  the host has no bid identifier for the video placement. In both the call returns the
  unknown impression error.
\<close>

theorem unknown_impression_fails_witness:
  "MakeOpenRTBGeneric (sample_env ok_response (Some mixed_response)) no_debug
       (sample_bidder [banner_unit, video_unit]) (FamilyName sample_adapter)
       [MEDIA_TYPE_BANNER, MEDIA_TYPE_VIDEO] True = Inr sample_request
   \<and> sent (Call sample_adapter (sample_env ok_response (Some mixed_response)) no_debug
        (sample_bidder [banner_unit, video_unit])) = [httpRequest sample_adapter ''{}'']
   \<and> ctxhttp_Do (sample_env ok_response (Some mixed_response))
        (httpRequest sample_adapter ''{}'') = Inr ok_response
   \<and> Response_StatusCode ok_response = 200
   \<and> Response_Body ok_response = Inr ''{...}''
   \<and> json_Unmarshal_BidResponse (sample_env ok_response (Some mixed_response)) ''{...}'' =
        Some mixed_response
   \<and> \<lparr>SeatBid_Bid = [video_bid, stray_bid]\<rparr> \<in> set (Resp_SeatBid mixed_response)
   \<and> stray_bid \<in> set (SeatBid_Bid \<lparr>SeatBid_Bid = [video_bid, stray_bid]\<rparr>)
   \<and> 0 < Bid_Price stray_bid
   \<and> Bid_ImpID stray_bid \<notin> Imp_ID ` set (Req_Imp sample_request)
   \<and> result (Call sample_adapter (sample_env ok_response (Some mixed_response)) no_debug
        (sample_bidder [banner_unit, video_unit])) = Inl (UnknownImpression ''slot-unknown'')
   \<and> sent (Call sample_adapter (sample_env ok_response (Some reversed_response)) no_debug
        (sample_bidder [banner_unit, unnamed_video_unit])) = [httpRequest sample_adapter ''{}'']
   \<and> json_Unmarshal_BidResponse (sample_env ok_response (Some reversed_response)) ''{...}'' =
        Some reversed_response
   \<and> \<lparr>SeatBid_Bid = [stray_bid]\<rparr> \<in> set (Resp_SeatBid reversed_response)
   \<and> LookupBidID (sample_env ok_response (Some reversed_response))
        (sample_bidder [banner_unit, unnamed_video_unit]) (Bid_ImpID video_bid) = []
   \<and> result (Call sample_adapter (sample_env ok_response (Some reversed_response)) no_debug
        (sample_bidder [banner_unit, unnamed_video_unit])) =
      Inl (UnknownImpression ''slot-unknown'')"
proof -
  let ?e = "sample_env ok_response (Some mixed_response)"
  let ?b = "sample_bidder [banner_unit, video_unit]"
  let ?seat = "\<lparr>SeatBid_Bid = [video_bid, stray_bid]\<rparr>"
  let ?e' = "sample_env ok_response (Some reversed_response)"
  let ?b' = "sample_bidder [banner_unit, unnamed_video_unit]"
  let ?seat' = "\<lparr>SeatBid_Bid = [stray_bid]\<rparr>"
  have h1: "MakeOpenRTBGeneric (sample_env ok_response decoded) no_debug bidder
      (FamilyName sample_adapter) [MEDIA_TYPE_BANNER, MEDIA_TYPE_VIDEO] True = Inr sample_request"
    for decoded bidder
    by (simp add: sample_env_def)
  have h2: "sent (Call sample_adapter ?e no_debug ?b) = [httpRequest sample_adapter ''{}'']"
    by (simp add: Call_cases transmit_sent makeImpMap_def merge_AdUnit_def fill_Site_def
        set_Site_def sample_defs)
  have h2': "sent (Call sample_adapter ?e' no_debug ?b') = [httpRequest sample_adapter ''{}'']"
    by (simp add: Call_cases transmit_sent makeImpMap_def merge_AdUnit_def fill_Site_def
        set_Site_def sample_defs unnamed_video_unit_def)
  have h3: "ctxhttp_Do (sample_env ok_response decoded) (httpRequest sample_adapter ''{}'') =
      Inr ok_response" for decoded
    by (simp add: sample_env_def)
  have h4: "Response_StatusCode ok_response = 200"
    and h5: "Response_Body ok_response = Inr ''{...}''"
    by (simp_all add: ok_response_def)
  have h6: "json_Unmarshal_BidResponse (sample_env ok_response decoded) ''{...}'' = decoded"
    for decoded
    by (simp add: sample_env_def)
  have h7: "?seat \<in> set (Resp_SeatBid mixed_response)"
    and h7': "?seat' \<in> set (Resp_SeatBid reversed_response)"
    by (simp_all add: mixed_response_def reversed_response_def)
  have h8: "stray_bid \<in> set (SeatBid_Bid ?seat)" and h8': "stray_bid \<in> set (SeatBid_Bid ?seat')"
    by simp_all
  have h9: "0 < Bid_Price stray_bid"
    by (simp add: stray_bid_def)
  have h10: "Bid_ImpID stray_bid \<notin> Imp_ID ` set (Req_Imp sample_request)"
    by (simp add: sample_defs stray_bid_def)
  have l: "LookupBidID ?e' ?b' (Bid_ImpID video_bid) = []"
    by (simp add: sample_defs mixed_defs)
  have r: "result (Call sample_adapter ?e no_debug ?b) = Inl (UnknownImpression ''slot-unknown'')"
    by (simp add: Call_def transmit_def makeImpMap_def merge_AdUnit_def fill_Site_def
        set_Site_def ensure_Device_def sample_defs mixed_defs)
  have r': "result (Call sample_adapter ?e' no_debug ?b') =
      Inl (UnknownImpression ''slot-unknown'')"
    by (simp add: Call_def transmit_def makeImpMap_def merge_AdUnit_def fill_Site_def
        set_Site_def ensure_Device_def sample_defs mixed_defs)
  note a = unknown_impression_fails [OF h1 h2 h3 h4 h5 h6 h7 h8 h9 h10]
    and b = unknown_impression_fails [OF h1 h2' h3 h4 h5 h6 h7' h8' h9 h10]
  from a b h1 h2 h2' h3 h4 h5 h6 h7 h7' h8 h9 h10 l r r'
  show ?thesis
    by simp
qed

text \<open>
  C2 as the spec states it fails. The first response again, but the host has no bid
  identifier for the video placement: the bid on the video impression comes first and
  stops the call with the unknown ad unit code error, although a priced bid on an unknown
  impression follows.
\<close>

theorem unknown_impression_counterexample:
  "0 < Bid_Price stray_bid
   \<and> Bid_ImpID stray_bid \<notin> Imp_ID ` set (Req_Imp sample_request)
   \<and> Resp_SeatBid mixed_response = [\<lparr>SeatBid_Bid = [video_bid, stray_bid]\<rparr>]
   \<and> result (Call sample_adapter (sample_env ok_response (Some mixed_response)) no_debug
        (sample_bidder [banner_unit, unnamed_video_unit])) =
      Inl (UnknownAdUnitCode ''slot-video'')"
  by (simp add: Call_def transmit_def makeImpMap_def merge_AdUnit_def fill_Site_def
      set_Site_def ensure_Device_def sample_defs mixed_defs)

text \<open>
  C3, as the code has it. One seat with two bids, in either order: one of price 0, one of
  price 2.5 on an impression of the map that has a video sub-object. When the host's bid
  identifier for that impression ID is not empty, the loops return one record: media type
  video, the bid's markup in the NURL field and no inline markup, width and height of the
  impression's video.
\<close>

theorem video_bid_reconciled:
  assumes "Bid_Price zero = 0"
    and "Bid_Price bid = 2.5"
    and "impMap (Bid_ImpID bid) = Some idx"
    and "Imp_Video (imps ! idx) = Some video"
    and "LookupBidID e bidder (Bid_ImpID bid) \<noteq> []"
    and "bids = [zero, bid] \<or> bids = [bid, zero]"
  shows "reconcile_SeatBids e bidder impMap imps [\<lparr>SeatBid_Bid = bids\<rparr>] [] =
     Inr [\<lparr>BidID = LookupBidID e bidder (Bid_ImpID bid), AdUnitCode = Bid_ImpID bid,
           Price = 2.5, Creative_id = Bid_CrID bid, BidderCode = Bidder_BidderCode bidder,
           CreativeMediaType = ''video'', NURL = Bid_AdM bid, Adm = [],
           Width = Video_W video, Height = Video_H video\<rparr>]"
  using assms by (auto simp: Let_def make_PBSBid_def)

lemmas video_defs =
  ok_response_def video_response_def zero_bid_def video_bid_def unnamed_video_unit_def

theorem video_bid_reconciled_witness:
  "Bid_Price zero_bid = 0 \<and> Bid_Price video_bid = 2.5
   \<and> makeImpMap (Req_Imp sample_request) (Bid_ImpID video_bid) = Some 1
   \<and> Imp_Video (Req_Imp sample_request ! 1) =
       Some \<lparr>Video_MIMEs = [''video/mp4''], Video_MaxDuration = 30, Video_Protocols = [2],
             Video_W = 640, Video_H = 480, Video_API = [1], Video_Pos = Some 3\<rparr>
   \<and> LookupBidID (sample_env ok_response (Some video_response))
        (sample_bidder [banner_unit, video_unit]) (Bid_ImpID video_bid) \<noteq> []
   \<and> reconcile_SeatBids (sample_env ok_response (Some video_response))
        (sample_bidder [banner_unit, video_unit]) (makeImpMap (Req_Imp sample_request))
        (Req_Imp sample_request) (Resp_SeatBid video_response) [] =
      Inr [\<lparr>BidID = ''bid-2'', AdUnitCode = ''slot-video'', Price = 2.5,
            Creative_id = ''cr-7'', BidderCode = ''conversant'', CreativeMediaType = ''video'',
            NURL = ''http://vast.example/7'', Adm = [], Width = 640, Height = 480\<rparr>]"
proof -
  let ?e = "sample_env ok_response (Some video_response)"
  let ?b = "sample_bidder [banner_unit, video_unit]"
  let ?video = "\<lparr>Video_MIMEs = [''video/mp4''], Video_MaxDuration = 30, Video_Protocols = [2],
      Video_W = 640, Video_H = 480, Video_API = [1], Video_Pos = Some 3\<rparr>"
  have h1: "Bid_Price zero_bid = 0" and h2: "Bid_Price video_bid = 2.5"
    by (simp_all add: zero_bid_def video_bid_def)
  have h3: "makeImpMap (Req_Imp sample_request) (Bid_ImpID video_bid) = Some 1"
    by (simp add: makeImpMap_def sample_defs video_defs)
  have h4: "Imp_Video (Req_Imp sample_request ! 1) = Some ?video"
    by (simp add: sample_defs video_defs)
  have h5: "LookupBidID ?e ?b (Bid_ImpID video_bid) \<noteq> []"
    by (simp add: sample_defs video_defs)
  have h6: "[zero_bid, video_bid] = [zero_bid, video_bid] \<or> [zero_bid, video_bid] = [video_bid, zero_bid]"
    by simp
  have r: "reconcile_SeatBids ?e ?b (makeImpMap (Req_Imp sample_request))
        (Req_Imp sample_request) (Resp_SeatBid video_response) [] =
      Inr [\<lparr>BidID = ''bid-2'', AdUnitCode = ''slot-video'', Price = 2.5,
            Creative_id = ''cr-7'', BidderCode = ''conversant'', CreativeMediaType = ''video'',
            NURL = ''http://vast.example/7'', Adm = [], Width = 640, Height = 480\<rparr>]"
    using video_bid_reconciled [where impMap = "makeImpMap (Req_Imp sample_request)",
      OF h1 h2 h3 h4 h5 h6]
    by (simp add: sample_defs video_defs)
  from h1 h2 h3 h4 h5 r show ?thesis
    by blast
qed

text \<open>
  C3 as the spec states it fails. The scenario, with a host that has no bid identifier
  for the video placement: the loops return the unknown ad unit code error and no record.
\<close>

theorem video_bid_counterexample:
  "Bid_Price zero_bid = 0 \<and> Bid_Price video_bid = 2.5
   \<and> makeImpMap (Req_Imp sample_request) (Bid_ImpID video_bid) = Some 1
   \<and> map_option Video_W (Imp_Video (Req_Imp sample_request ! 1)) = Some 640
   \<and> Resp_SeatBid video_response = [\<lparr>SeatBid_Bid = [zero_bid, video_bid]\<rparr>]
   \<and> reconcile_SeatBids (sample_env ok_response (Some video_response))
        (sample_bidder [banner_unit, unnamed_video_unit]) (makeImpMap (Req_Imp sample_request))
        (Req_Imp sample_request) (Resp_SeatBid video_response) [] =
      Inl (UnknownAdUnitCode ''slot-video'')"
  by (simp add: makeImpMap_def sample_defs video_defs)

text \<open>
  C10. A bid whose price is zero or negative is passed by before its impression is
  looked up: leaving it out of its seat changes nothing in what the loops return, whatever
  its impression ID; and an unknown impression error always names a bid with a positive
  price.
\<close>

theorem nonpositive_bid_skipped:
  assumes "Bid_Price bid \<le> 0"
  shows "reconcile_Bids e bidder impMap imps (before @ bid # after) bids =
           reconcile_Bids e bidder impMap imps (before @ after) bids
       \<and> reconcile_SeatBids e bidder impMap imps
           (seats1 @ \<lparr>SeatBid_Bid = before @ bid # after\<rparr> # seats2) bids =
         reconcile_SeatBids e bidder impMap imps
           (seats1 @ \<lparr>SeatBid_Bid = before @ after\<rparr> # seats2) bids
       \<and> (reconcile_SeatBids e bidder impMap imps seats bids = Inl (UnknownImpression code) \<longrightarrow>
            (\<exists>s \<in> set seats. \<exists>b \<in> set (SeatBid_Bid s). 0 < Bid_Price b \<and> Bid_ImpID b = code))"
proof -
  from assms have one: "reconcile_Bids e bidder impMap imps (before @ bid # after) acc =
      reconcile_Bids e bidder impMap imps (before @ after) acc" for acc
    by (simp add: reconcile_Bids_append split: sum.split)
  have all: "reconcile_SeatBids e bidder impMap imps
        (seats1 @ \<lparr>SeatBid_Bid = before @ bid # after\<rparr> # seats2) bids =
      reconcile_SeatBids e bidder impMap imps
        (seats1 @ \<lparr>SeatBid_Bid = before @ after\<rparr> # seats2) bids"
    by (simp add: reconcile_SeatBids_append one split: sum.split)
  have "\<exists>s \<in> set seats. \<exists>b \<in> set (SeatBid_Bid s). 0 < Bid_Price b \<and> Bid_ImpID b = code"
    if "reconcile_SeatBids e bidder impMap imps seats bids = Inl (UnknownImpression code)"
    using reconcile_SeatBids_error [OF that] by auto
  with one all show ?thesis
    by blast
qed

text \<open>The bid without a price names an ID that no impression has.\<close>

theorem nonpositive_bid_skipped_witness:
  "Bid_Price zero_bid \<le> 0
   \<and> makeImpMap (Req_Imp sample_request) (Bid_ImpID zero_bid) = None
   \<and> reconcile_SeatBids (sample_env ok_response None) (sample_bidder [banner_unit, video_unit])
        (makeImpMap (Req_Imp sample_request)) (Req_Imp sample_request)
        [\<lparr>SeatBid_Bid = [banner_bid, zero_bid, video_bid]\<rparr>] [] =
      reconcile_SeatBids (sample_env ok_response None) (sample_bidder [banner_unit, video_unit])
        (makeImpMap (Req_Imp sample_request)) (Req_Imp sample_request)
        [\<lparr>SeatBid_Bid = [banner_bid, video_bid]\<rparr>] []
   \<and> reconcile_Bids (sample_env ok_response None) (sample_bidder [banner_unit, video_unit])
        (makeImpMap (Req_Imp sample_request)) (Req_Imp sample_request) [zero_bid] [] = Inr []"
proof -
  have h: "Bid_Price zero_bid \<le> 0"
    by (simp add: zero_bid_def)
  have n: "makeImpMap (Req_Imp sample_request) (Bid_ImpID zero_bid) = None"
    by (simp add: makeImpMap_def sample_defs zero_bid_def)
  from nonpositive_bid_skipped [OF h, of "sample_env ok_response None"
      "sample_bidder [banner_unit, video_unit]" "makeImpMap (Req_Imp sample_request)"
      "Req_Imp sample_request" "[banner_bid]" "[video_bid]" "[]" "[]" "[]"]
    nonpositive_bid_skipped [OF h, of "sample_env ok_response None"
      "sample_bidder [banner_unit, video_unit]" "makeImpMap (Req_Imp sample_request)"
      "Req_Imp sample_request" "[]" "[]" "[]"]
    h n
  show ?thesis
    by simp
qed

end
